theory Spec2Isabelle
  imports Complex_Main "HOL-Library.Char_ord" "HOL-Library.List_Lexorder" "HOL-Library.AList"
begin

section \<open>JavaScript strings\<close>

text \<open>
  A JavaScript string is a sequence of UTF-16 code units and \<open>length\<close> counts them. The
  model reads a \<^typ>\<open>string\<close> as the sequence of its code units and covers the strings
  whose code units lie in U+0000..U+00FF (one \<^typ>\<open>char\<close> each). Alternatives of the
  source's regular expressions and keyword tables that need a code unit above U+00FF
  (the CJK literals, the full-width punctuation) cannot match such a string; each place
  where one is left out says so.
\<close>

definition bar :: char where
  "bar = CHR ''|''"

definition dquote :: char where
  "dquote = CHR 0x22"

definition squote :: char where
  "squote = CHR 0x27"

definition backtick :: char where
  "backtick = CHR 0x60"

text \<open>\<open>\d\<close>, \<open>\w\<close> and \<open>\s\<close> of a regular expression without the \<open>u\<close> flag; \<open>\s\<close> on
  U+0000..U+00FF is TAB, LF, VT, FF, CR, SPACE and NBSP, which is also what \<open>trim\<close> strips.\<close>

definition isDigit :: "char \<Rightarrow> bool" where
  "isDigit c = (CHR ''0'' \<le> c \<and> c \<le> CHR ''9'')"

definition isWord :: "char \<Rightarrow> bool" where
  "isWord c = ((CHR ''a'' \<le> c \<and> c \<le> CHR ''z'') \<or> (CHR ''A'' \<le> c \<and> c \<le> CHR ''Z'')
               \<or> isDigit c \<or> c = CHR ''_'')"

definition isSpace :: "char \<Rightarrow> bool" where
  "isSpace c = (of_char c \<in> {9, 10, 11, 12, 13, 32, 160 :: nat})"

text \<open>The line terminators that \<open>.\<close> does not match: LF and CR (U+2028 and U+2029 are
  outside the alphabet).\<close>

definition isLineTerminator :: "char \<Rightarrow> bool" where
  "isLineTerminator c = (of_char c \<in> {10, 13 :: nat})"

text \<open>\<open>String.prototype.toLowerCase\<close> on U+0000..U+00FF: A-Z and the Latin-1 capitals
  U+00C0..U+00DE except the multiplication sign U+00D7 move up by 32.\<close>

definition lowerChar :: "char \<Rightarrow> char" where
  "lowerChar c =
     (let n = (of_char c :: nat)
      in if (65 \<le> n \<and> n \<le> 90) \<or> (192 \<le> n \<and> n \<le> 222 \<and> n \<noteq> 215)
         then char_of (n + 32) else c)"

definition toLowerCase :: "string \<Rightarrow> string" where
  "toLowerCase s = map lowerChar s"

primrec startsWith :: "string \<Rightarrow> string \<Rightarrow> bool" where
  "startsWith [] s = True"
| "startsWith (c # cs) s = (case s of [] \<Rightarrow> False | d # ds \<Rightarrow> c = d \<and> startsWith cs ds)"

text \<open>\<open>text.includes(kw)\<close>: \<open>kw\<close> occurs in \<open>text\<close> as a substring.\<close>

fun includesStr :: "string \<Rightarrow> string \<Rightarrow> bool" where
  "includesStr [] kw = (kw = [])"
| "includesStr (c # cs) kw = (startsWith kw (c # cs) \<or> includesStr cs kw)"

text \<open>\<open>trim\<close>: white space is stripped at both ends.\<close>

definition trim :: "string \<Rightarrow> string" where
  "trim s = rev (dropWhile isSpace (rev (dropWhile isSpace s)))"

text \<open>\<open>parts.join(sep)\<close>.\<close>

fun join :: "string \<Rightarrow> string list \<Rightarrow> string" where
  "join sep [] = []"
| "join sep [x] = x"
| "join sep (x # y # ys) = x @ sep @ join sep (y # ys)"

text \<open>\<open>s.split(c)\<close> for a one-character separator: the fields between the separators,
  at least one.\<close>

fun splitOn :: "char \<Rightarrow> string \<Rightarrow> string list" where
  "splitOn sep [] = [[]]"
| "splitOn sep (c # cs) =
     (if c = sep then [] # splitOn sep cs
      else (case splitOn sep cs of [] \<Rightarrow> [[c]] | f # fs \<Rightarrow> (c # f) # fs))"

text \<open>Decimal rendering of a natural number, as a template literal prints it.\<close>

fun showNat :: "nat \<Rightarrow> string" where
  "showNat n = (if n < 10 then [char_of (48 + n)] else showNat (n div 10) @ [char_of (48 + n mod 10)])"

text \<open>\<open>re.test(s)\<close> searches every start position. \<open>searchFrom m w s\<close> tries the matcher
  \<open>m\<close> at each position of \<open>s\<close>; the flag tells the matcher whether the character before
  the position is a word character, which is what a leading \<open>\b\<close> needs.\<close>

fun searchFrom :: "(bool \<Rightarrow> string \<Rightarrow> bool) \<Rightarrow> bool \<Rightarrow> string \<Rightarrow> bool" where
  "searchFrom m w [] = m w []"
| "searchFrom m w (c # cs) = (m w (c # cs) \<or> searchFrom m (isWord c) cs)"

definition search :: "(bool \<Rightarrow> string \<Rightarrow> bool) \<Rightarrow> string \<Rightarrow> bool" where
  "search m s = searchFrom m False s"

text \<open>\<open>\s+X\<close> at the head of \<open>r\<close>, where \<open>X\<close> is a character class disjoint from \<open>\s\<close>.\<close>

definition spacesThen :: "(char \<Rightarrow> bool) \<Rightarrow> string \<Rightarrow> bool" where
  "spacesThen P r =
     (case r of [] \<Rightarrow> False
      | c # _ \<Rightarrow> isSpace c \<and> (case dropWhile isSpace r of [] \<Rightarrow> False | d # _ \<Rightarrow> P d))"

text \<open>\<open>s.replace(/[class]+/g, ' ')\<close>: every maximal run of characters of the class becomes
  one space. The flag says whether the previous character belonged to a run.\<close>

fun replaceRuns :: "(char \<Rightarrow> bool) \<Rightarrow> bool \<Rightarrow> string \<Rightarrow> string" where
  "replaceRuns P inRun [] = []"
| "replaceRuns P inRun (c # cs) =
     (if P c then (if inRun then replaceRuns P True cs else CHR '' '' # replaceRuns P True cs)
      else c # replaceRuns P False cs)"

section \<open>Tiers\<close>

datatype Tier = SIMPLE | MEDIUM | COMPLEX | REASONING

fun tierName :: "Tier \<Rightarrow> string" where
  "tierName SIMPLE = ''SIMPLE''"
| "tierName MEDIUM = ''MEDIUM''"
| "tierName COMPLEX = ''COMPLEX''"
| "tierName REASONING = ''REASONING''"

section \<open>Request fingerprints (request-fingerprint.ts)\<close>

subsection \<open>extractFeatures\<close>

text \<open>\<open>/\bfunction\b|\bdef\s+\w+|\bclass\s+\w+/\<close>, tried at one position.\<close>

definition kwFunction :: "bool \<Rightarrow> string \<Rightarrow> bool" where
  "kwFunction w s = (\<not> w \<and> startsWith ''function'' s
                     \<and> (case drop 8 s of [] \<Rightarrow> True | c # _ \<Rightarrow> \<not> isWord c))"

definition kwDef :: "bool \<Rightarrow> string \<Rightarrow> bool" where
  "kwDef w s = (\<not> w \<and> startsWith ''def'' s \<and> spacesThen isWord (drop 3 s))"

definition kwClass :: "bool \<Rightarrow> string \<Rightarrow> bool" where
  "kwClass w s = (\<not> w \<and> startsWith ''class'' s \<and> spacesThen isWord (drop 5 s))"

text \<open>\<open>/\{[\s\S]*?\}/\<close>, \<open>/\[[\s\S]*?\]/\<close> and \<open>/<[\s\S]*?>/\<close>: an opening character with a
  closing one somewhere after it.\<close>

definition enclosed :: "char \<Rightarrow> char \<Rightarrow> string \<Rightarrow> bool" where
  "enclosed a b s = (case dropWhile (\<lambda>c. c \<noteq> a) s of [] \<Rightarrow> False | _ # r \<Rightarrow> b \<in> set r)"

text \<open>A code fence: three backticks, anything, three backticks.\<close>

definition fence :: string where
  "fence = [backtick, backtick, backtick]"

fun codeFence :: "string \<Rightarrow> bool" where
  "codeFence [] = False"
| "codeFence (c # cs) =
     (if startsWith fence (c # cs) then includesStr (drop 3 (c # cs)) fence else codeFence cs)"

text \<open>Inline code: a backtick, at least one character that is not a backtick, a backtick.\<close>

definition inlineCodeAt :: "bool \<Rightarrow> string \<Rightarrow> bool" where
  "inlineCodeAt w s =
     (case s of c # d # r \<Rightarrow> c = backtick \<and> d \<noteq> backtick \<and> backtick \<in> set r | _ \<Rightarrow> False)"

definition codePatterns :: "(string \<Rightarrow> bool) list" where
  "codePatterns =
     [search (\<lambda>w s. kwFunction w s \<or> kwDef w s \<or> kwClass w s),
      enclosed (CHR ''{'') (CHR ''}''),
      enclosed (CHR ''['') (CHR '']''),
      enclosed (CHR ''<'') (CHR ''>''),
      codeFence,
      search inlineCodeAt]"

text \<open>The reasoning words of the fingerprint; the four CJK words of the source's list
  are outside the alphabet.\<close>

definition reasoningWords :: "string list" where
  "reasoningWords = [''step'', ''prove'', ''explain'', ''why'', ''how'']"

text \<open>\<open>/\d+\s*[.\)U+FF0E]/\<close> and \<open>/\bstep\s+\d+/i\<close>, tried at one position; the two other
  patterns of the source's \<open>multiStepPatterns\<close> consist of CJK literals.\<close>

definition numbered :: "bool \<Rightarrow> string \<Rightarrow> bool" where
  "numbered w s =
     (case s of [] \<Rightarrow> False
      | c # _ \<Rightarrow> isDigit c \<and>
          (case dropWhile isSpace (dropWhile isDigit s) of [] \<Rightarrow> False
           | d # _ \<Rightarrow> d = CHR ''.'' \<or> d = CHR '')''))"

definition stepNumber :: "bool \<Rightarrow> string \<Rightarrow> bool" where
  "stepNumber w s = (startsWith ''step'' (toLowerCase s) \<and> spacesThen isDigit (drop 4 s))"

definition fpMultiStepPatterns :: "(string \<Rightarrow> bool) list" where
  "fpMultiStepPatterns = [search numbered, search (\<lambda>w s. \<not> w \<and> stepNumber w s)]"

text \<open>\<open>(text.match(/\?|\<dots>/g) || []).length\<close>; the second alternative is the
  full-width question mark.\<close>

definition questionMarks :: "string \<Rightarrow> nat" where
  "questionMarks s = length (filter (\<lambda>c. c = CHR ''?'') s)"

definition extractFeatures :: "string \<Rightarrow> string list" where
  "extractFeatures text =
     (let lower = toLowerCase text;
          f1 = (if \<exists>p \<in> set codePatterns. p text then [''CODE''] else []);
          f2 = (if \<exists>w \<in> set reasoningWords. includesStr lower w then [''REASONING''] else []);
          f3 = (if \<exists>p \<in> set fpMultiStepPatterns. p text then [''MULTISTEP''] else []);
          questionCount = questionMarks text;
          f4 = (if questionCount > 0 then [''Q'' @ showNat (min questionCount 3)] else []);
          tokenEstimate = (length text + 3) div 4;
          f5 = (if tokenEstimate < 50 then [''SHORT'']
                else if tokenEstimate < 200 then [''MEDIUM'']
                else if tokenEstimate < 1000 then [''LONG'']
                else [''XLONG''])
      in f1 @ f2 @ f3 @ f4 @ f5)"

subsection \<open>normalize and contentHash\<close>

definition isDecorativePunct :: "char \<Rightarrow> bool" where
  "isDecorativePunct c = (c \<in> {CHR ''!'', CHR ''.'', CHR '','', CHR '';'', CHR '':''})"

text \<open>
  The four replacements of \<open>normalize\<close>, then \<open>trim\<close> and \<open>toLowerCase\<close>. The character
  class of \<open>NORMALIZATION_PATTERNS.quotes\<close> holds the two ASCII quotes in the source as
  it stands. The class of \<open>chinesePunct\<close> holds full-width punctuation and the same two
  quotes, which its table maps to themselves: on the alphabet that replacement changes
  nothing, so it does not appear below.
\<close>

definition normalize :: "string \<Rightarrow> string" where
  "normalize text =
     toLowerCase (trim
       (replaceRuns isDecorativePunct False
         (map (\<lambda>c. if c = dquote \<or> c = squote then dquote else c)
           (replaceRuns isSpace False text))))"

definition contentHash :: "string \<Rightarrow> string" where
  "contentHash text =
     (let normalized = normalize text
      in if length normalized \<le> 150 then normalized
         else take 100 normalized @ ''...'' @ drop (length normalized - 50) normalized)"

subsection \<open>generateFingerprint, fingerprintsSimilar, getCacheKey\<close>

text \<open>An optional string argument is \<open>None\<close> for \<open>undefined\<close>; JavaScript's truth test
  of a string also rejects the empty string.\<close>

definition truthy :: "string option \<Rightarrow> bool" where
  "truthy s = (case s of None \<Rightarrow> False | Some t \<Rightarrow> t \<noteq> [])"

definition generateFingerprint :: "string \<Rightarrow> string option \<Rightarrow> string" where
  "generateFingerprint prompt systemPrompt =
     (let features = extractFeatures prompt;
          content = contentHash prompt;
          sysHash = (if truthy systemPrompt then take 50 (contentHash (the systemPrompt))
                     else ''none'')
      in join [bar] (sort features) @ [bar] @ content @ [bar] @ sysHash)"

text \<open>
  \<open>fp.split('|', 2)\<close> keeps the first two fields. The destructuring binds the second
  name to \<open>undefined\<close> when there is one field only; reading \<open>length\<close> of \<open>undefined\<close>
  throws a TypeError, which the model returns as \<open>Inl TypeError\<close>.
\<close>

datatype jsError = TypeError

definition splitTwo :: "string \<Rightarrow> string \<times> string option" where
  "splitTwo fp =
     (case take 2 (splitOn bar fp) of
        [f] \<Rightarrow> (f, None)
      | f # c # _ \<Rightarrow> (f, Some c)
      | [] \<Rightarrow> ([], None))"

text \<open>The loop of \<open>fingerprintsSimilar\<close> over the common prefix.\<close>

fun diffCount :: "string \<Rightarrow> string \<Rightarrow> nat" where
  "diffCount (a # as) (b # bs) = (if a \<noteq> b then 1 else 0) + diffCount as bs"
| "diffCount _ _ = 0"

definition fingerprintsSimilar :: "string \<Rightarrow> string \<Rightarrow> jsError + bool" where
  "fingerprintsSimilar fp1 fp2 =
     (let (features1, content1) = splitTwo fp1;
          (features2, content2) = splitTwo fp2
      in if features1 \<noteq> features2 then Inr False
         else if content1 = content2 then Inr True
         else (case (content1, content2) of
                 (Some c1, Some c2) \<Rightarrow>
                   (let maxLen = max (length c1) (length c2);
                        minLen = min (length c1) (length c2)
                    in if real minLen / real maxLen < 9 / 10 then Inr False
                       else Inr (real (diffCount c1 c2
                                        + (max (length c1) (length c2) - min (length c1) (length c2)))
                                   / real maxLen < 1 / 10))
               | _ \<Rightarrow> Inl TypeError))"

definition getCacheKey :: "string \<Rightarrow> string option \<Rightarrow> string" where
  "getCacheKey prompt systemPrompt = generateFingerprint prompt systemPrompt"

section \<open>The rule classifier (rules.ts)\<close>

text \<open>
  Numbers are JavaScript doubles in the source; the model computes with real numbers, so
  rounding, infinities and NaN are outside it. \<open>estimatedTokens\<close> is a natural number, as
  \<open>route\<close> passes it. The declarations of \<open>types.ts\<close> (\<open>ScoringConfig\<close>,
  \<open>ScoringResult\<close>) are read off the fields that \<open>rules.ts\<close> accesses.
\<close>

subsection \<open>Score history\<close>

record ScoreHistory =
  lastScore :: real
  lastTier :: "Tier option"
  consecutiveSameTier :: nat
  lastBoundary :: string

text \<open>The module-level \<open>Map\<close> named \<open>scoreHistory\<close>, as its entries in insertion
  order; it is passed to every function that reads or writes it, and returned when
  written.\<close>

type_synonym HistoryMap = "(string \<times> ScoreHistory) list"

definition getScoreHistory :: "HistoryMap \<Rightarrow> string \<Rightarrow> ScoreHistory" where
  "getScoreHistory scoreHistory fingerprint =
     (case map_of scoreHistory fingerprint of
        Some h \<Rightarrow> h
      | None \<Rightarrow> \<lparr>lastScore = 0, lastTier = None, consecutiveSameTier = 0, lastBoundary = []\<rparr>)"

definition cleanupScoreHistory :: "HistoryMap \<Rightarrow> HistoryMap" where
  "cleanupScoreHistory scoreHistory =
     (if length scoreHistory > 1000
      then (let entriesToDelete = take (length scoreHistory - 1000) (map fst scoreHistory)
            in fold AList.delete entriesToDelete scoreHistory)
      else scoreHistory)"

text \<open>\<open>rnd\<close> is the value that \<open>Math.random()\<close> returns in this call.\<close>

definition updateScoreHistory ::
  "HistoryMap \<Rightarrow> string \<Rightarrow> real \<Rightarrow> Tier option \<Rightarrow> string \<Rightarrow> real \<Rightarrow> HistoryMap" where
  "updateScoreHistory scoreHistory fingerprint score tier boundary rnd =
     (let existing = map_of scoreHistory fingerprint;
          consecutive = (case existing of
                           None \<Rightarrow> 1
                         | Some e \<Rightarrow> if lastTier e = tier then consecutiveSameTier e + 1 else 1);
          h = AList.update fingerprint
                \<lparr>lastScore = score, lastTier = tier, consecutiveSameTier = consecutive,
                 lastBoundary = boundary\<rparr> scoreHistory
      in if rnd < 1 / 100 then cleanupScoreHistory h else h)"

subsection \<open>Dimension scorers\<close>

record DimensionScore =
  dName :: string
  dScore :: real
  dSignal :: "string option"

record TokenThresholds =
  simple :: real
  complex :: real

definition scoreTokenCount :: "nat \<Rightarrow> TokenThresholds \<Rightarrow> DimensionScore" where
  "scoreTokenCount estimatedTokens thresholds =
     (if real estimatedTokens < simple thresholds
      then \<lparr>dName = ''tokenCount'', dScore = -1,
            dSignal = Some (''short ('' @ showNat estimatedTokens @ '' tokens)'')\<rparr>
      else if real estimatedTokens > complex thresholds
      then \<lparr>dName = ''tokenCount'', dScore = 1,
            dSignal = Some (''long ('' @ showNat estimatedTokens @ '' tokens)'')\<rparr>
      else \<lparr>dName = ''tokenCount'', dScore = 0, dSignal = None\<rparr>)"

text \<open>\<open>keywords.filter((kw) => text.includes(kw.toLowerCase()))\<close>.\<close>

definition keywordMatches :: "string \<Rightarrow> string list \<Rightarrow> string list" where
  "keywordMatches text keywords = filter (\<lambda>kw. includesStr text (toLowerCase kw)) keywords"

definition scoreKeywordMatch ::
  "string \<Rightarrow> string list \<Rightarrow> string \<Rightarrow> string \<Rightarrow> nat \<times> nat \<Rightarrow> real \<times> real \<times> real
     \<Rightarrow> DimensionScore" where
  "scoreKeywordMatch text keywords name signalLabel thresholds scores =
     (let (low, high) = thresholds;
          (sNone, sLow, sHigh) = scores;
          matches = keywordMatches text keywords;
          sig = signalLabel @ '' ('' @ join '', '' (take 3 matches) @ '')''
      in if length matches \<ge> high then \<lparr>dName = name, dScore = sHigh, dSignal = Some sig\<rparr>
         else if length matches \<ge> low then \<lparr>dName = name, dScore = sLow, dSignal = Some sig\<rparr>
         else \<lparr>dName = name, dScore = sNone, dSignal = None\<rparr>)"

text \<open>\<open>MULTI_STEP_PATTERNS\<close>: \<open>/first.*then/i\<close>, \<open>/step\s+\d+/i\<close> and \<open>/\d+[\.U+FF0E]\s+/\<close>, each
  tried at one position; the four remaining patterns start with a CJK literal.\<close>

definition firstThen :: "bool \<Rightarrow> string \<Rightarrow> bool" where
  "firstThen w s =
     (startsWith ''first'' (toLowerCase s)
      \<and> includesStr (takeWhile (\<lambda>c. \<not> isLineTerminator c) (toLowerCase (drop 5 s))) ''then'')"

definition numberDot :: "bool \<Rightarrow> string \<Rightarrow> bool" where
  "numberDot w s =
     (case s of [] \<Rightarrow> False
      | c # _ \<Rightarrow> isDigit c \<and>
          (case dropWhile isDigit s of
             d # e # _ \<Rightarrow> d = CHR ''.'' \<and> isSpace e
           | _ \<Rightarrow> False))"

definition MULTI_STEP_PATTERNS :: "(string \<Rightarrow> bool) list" where
  "MULTI_STEP_PATTERNS = [search firstThen, search stepNumber, search numberDot]"

definition scoreMultiStep :: "string \<Rightarrow> DimensionScore" where
  "scoreMultiStep text =
     (let hits = filter (\<lambda>p. p text) MULTI_STEP_PATTERNS
      in if length hits > 0
         then \<lparr>dName = ''multiStepPatterns'', dScore = 1 / 2, dSignal = Some ''multi-step''\<rparr>
         else \<lparr>dName = ''multiStepPatterns'', dScore = 0, dSignal = None\<rparr>)"

text \<open>\<open>scoreQuestionComplexity\<close>: the full-width question mark and the three phrases of
  \<open>CHINESE_QUESTION_PHRASE\<close> are outside the alphabet, so \<open>fullWidth\<close> and the number of
  phrase matches are 0 and the branch that needs two phrase matches is never taken.\<close>

definition scoreQuestionComplexity :: "string \<Rightarrow> DimensionScore" where
  "scoreQuestionComplexity prompt =
     (let halfWidth = questionMarks prompt;
          fullWidth = 0;
          questionCount = halfWidth + fullWidth
      in if questionCount > 3
         then \<lparr>dName = ''questionComplexity'', dScore = 1 / 2,
               dSignal = Some (showNat questionCount @ '' questions'')\<rparr>
         else \<lparr>dName = ''questionComplexity'', dScore = 0, dSignal = None\<rparr>)"

definition scoreAgenticTask :: "string \<Rightarrow> string list \<Rightarrow> DimensionScore \<times> real" where
  "scoreAgenticTask text keywords =
     (let matched = keywordMatches text keywords;
          matchCount = length matched;
          sigs = join '', '' (take 3 matched)
      in if matchCount \<ge> 4
         then (\<lparr>dName = ''agenticTask'', dScore = 1,
                dSignal = Some (''agentic ('' @ sigs @ '')'')\<rparr>, 1)
         else if matchCount \<ge> 3
         then (\<lparr>dName = ''agenticTask'', dScore = 6 / 10,
                dSignal = Some (''agentic ('' @ sigs @ '')'')\<rparr>, 6 / 10)
         else if matchCount \<ge> 1
         then (\<lparr>dName = ''agenticTask'', dScore = 2 / 10,
                dSignal = Some (''agentic-light ('' @ sigs @ '')'')\<rparr>, 2 / 10)
         else (\<lparr>dName = ''agenticTask'', dScore = 0, dSignal = None\<rparr>, 0))"

subsection \<open>Tier boundaries with hysteresis\<close>

record TierBoundaries =
  simpleMedium :: real
  mediumComplex :: real
  complexReasoning :: real

record TierDecision =
  tdTier :: "Tier option"
  tdDistance :: real
  tdBoundary :: string
  usedHysteresis :: bool

text \<open>The position of a tier in the local table \<open>tiers\<close>, which \<open>findIndex\<close> returns.\<close>

fun tierIndex :: "Tier \<Rightarrow> nat" where
  "tierIndex SIMPLE = 0"
| "tierIndex MEDIUM = 1"
| "tierIndex COMPLEX = 2"
| "tierIndex REASONING = 3"

text \<open>The tier and the distance before hysteresis (\<open>currentTier\<close>, \<open>currentDistance\<close>,
  \<open>nearestBoundary\<close> of the source).\<close>

definition naturalTier :: "real \<Rightarrow> TierBoundaries \<Rightarrow> Tier \<times> real \<times> string" where
  "naturalTier score boundaries =
     (let sM = simpleMedium boundaries; mC = mediumComplex boundaries;
          cR = complexReasoning boundaries
      in if score < sM then (SIMPLE, sM - score, ''simple-medium'')
         else if score < mC
         then (MEDIUM, min (score - sM) (mC - score),
               if score < (sM + mC) / 2 then ''simple-medium'' else ''medium-complex'')
         else if score < cR
         then (COMPLEX, min (score - mC) (cR - score),
               if score < (mC + cR) / 2 then ''medium-complex'' else ''complex-reasoning'')
         else (REASONING, score - cR, ''complex-reasoning''))"

definition calculateTierWithHysteresis ::
  "real \<Rightarrow> TierBoundaries \<Rightarrow> ScoreHistory \<Rightarrow> real \<Rightarrow> TierDecision" where
  "calculateTierWithHysteresis score boundaries history fuzzyWidth =
     (let (currentTier, currentDistance, nearestBoundary) = naturalTier score boundaries;
          plain = \<lparr>tdTier = Some currentTier, tdDistance = currentDistance,
                   tdBoundary = nearestBoundary, usedHysteresis = False\<rparr>
      in case lastTier history of
           None \<Rightarrow> plain
         | Some lt \<Rightarrow>
             if currentTier \<noteq> lt
             then (let isInFuzzyRegion = currentDistance < fuzzyWidth
                   in if isInFuzzyRegion
                      then \<lparr>tdTier = Some lt, tdDistance = 5 / 100,
                            tdBoundary = nearestBoundary, usedHysteresis = True\<rparr>
                      else (let movingUp = tierIndex currentTier > tierIndex lt;
                                requiredDistance = fuzzyWidth
                            in if movingUp
                               then (if currentDistance < requiredDistance
                                     then \<lparr>tdTier = Some lt, tdDistance = currentDistance,
                                           tdBoundary = nearestBoundary, usedHysteresis = True\<rparr>
                                     else plain)
                               else (if currentDistance < requiredDistance
                                     then \<lparr>tdTier = Some lt, tdDistance = currentDistance,
                                           tdBoundary = nearestBoundary, usedHysteresis = True\<rparr>
                                     else plain)))
             else plain)"

subsection \<open>classifyByRules\<close>

record ScoringConfig =
  tokenCountThresholds :: TokenThresholds
  codeKeywords :: "string list"
  reasoningKeywords :: "string list"
  technicalKeywords :: "string list"
  creativeKeywords :: "string list"
  simpleKeywords :: "string list"
  imperativeVerbs :: "string list"
  constraintIndicators :: "string list"
  outputFormatKeywords :: "string list"
  referenceKeywords :: "string list"
  negationKeywords :: "string list"
  domainSpecificKeywords :: "string list"
  agenticTaskKeywords :: "string list"
  dimensionWeights :: "string \<rightharpoonup> real"
  tierBoundaries :: TierBoundaries
  confidenceSteepness :: real
  confidenceThreshold :: real

record ScoringResult =
  score :: real
  tier :: "Tier option"
  confidence :: real
  signals :: "string list"
  agenticScore :: real

definition calibrateConfidence :: "real \<Rightarrow> real \<Rightarrow> real" where
  "calibrateConfidence distance steepness = 1 / (1 + exp (- steepness * distance))"

text \<open>The text that the keyword dimensions read, and the user prompt alone.\<close>

definition fullText :: "string \<Rightarrow> string option \<Rightarrow> string" where
  "fullText prompt systemPrompt =
     (case systemPrompt of None \<Rightarrow> [] | Some s \<Rightarrow> s) @ '' '' @ prompt"

definition dimensions :: "string \<Rightarrow> string option \<Rightarrow> nat \<Rightarrow> ScoringConfig \<Rightarrow> DimensionScore list" where
  "dimensions prompt systemPrompt estimatedTokens config =
     (let text = toLowerCase (fullText prompt systemPrompt);
          userText = toLowerCase prompt
      in [scoreTokenCount estimatedTokens (tokenCountThresholds config),
          scoreKeywordMatch text (codeKeywords config) ''codePresence'' ''code''
            (1, 2) (0, 1 / 2, 1),
          scoreKeywordMatch userText (reasoningKeywords config) ''reasoningMarkers'' ''reasoning''
            (1, 2) (0, 7 / 10, 1),
          scoreKeywordMatch text (technicalKeywords config) ''technicalTerms'' ''technical''
            (2, 4) (0, 1 / 2, 1),
          scoreKeywordMatch text (creativeKeywords config) ''creativeMarkers'' ''creative''
            (1, 2) (0, 1 / 2, 7 / 10),
          scoreKeywordMatch text (simpleKeywords config) ''simpleIndicators'' ''simple''
            (1, 2) (0, -1, -1),
          scoreMultiStep text,
          scoreQuestionComplexity prompt,
          scoreKeywordMatch text (imperativeVerbs config) ''imperativeVerbs'' ''imperative''
            (1, 2) (0, 3 / 10, 1 / 2),
          scoreKeywordMatch text (constraintIndicators config) ''constraintCount'' ''constraints''
            (1, 3) (0, 3 / 10, 7 / 10),
          scoreKeywordMatch text (outputFormatKeywords config) ''outputFormat'' ''format''
            (1, 2) (0, 4 / 10, 7 / 10),
          scoreKeywordMatch text (referenceKeywords config) ''referenceComplexity'' ''references''
            (1, 2) (0, 3 / 10, 1 / 2),
          scoreKeywordMatch text (negationKeywords config) ''negationComplexity'' ''negation''
            (2, 3) (0, 3 / 10, 1 / 2),
          scoreKeywordMatch text (domainSpecificKeywords config) ''domainSpecificity''
            ''domain-specific'' (1, 2) (0, 1 / 2, 8 / 10),
          fst (scoreAgenticTask text (agenticTaskKeywords config))])"

definition weightedScoreOf :: "(string \<rightharpoonup> real) \<Rightarrow> DimensionScore list \<Rightarrow> real" where
  "weightedScoreOf weights ds =
     foldl (\<lambda>acc d. acc + dScore d * (case weights (dName d) of None \<Rightarrow> 0 | Some w \<Rightarrow> w)) 0 ds"

text \<open>
  \<open>classifyByRules\<close> takes the score history and the random number of this call and
  returns the history with the result. The arrow U+2192 of the hysteresis signal is
  outside the alphabet and is written \<open>->\<close>.
\<close>

definition classifyByRules ::
  "string \<Rightarrow> string option \<Rightarrow> nat \<Rightarrow> ScoringConfig \<Rightarrow> string option \<Rightarrow> HistoryMap \<Rightarrow> real
     \<Rightarrow> ScoringResult \<times> HistoryMap" where
  "classifyByRules prompt systemPrompt estimatedTokens config fingerprint scoreHistory rnd =
     (let text = toLowerCase (fullText prompt systemPrompt);
          userText = toLowerCase prompt;
          ds = dimensions prompt systemPrompt estimatedTokens config;
          agentic = snd (scoreAgenticTask text (agenticTaskKeywords config));
          sigs = map (\<lambda>d. the (dSignal d)) (filter (\<lambda>d. dSignal d \<noteq> None) ds);
          weightedScore = weightedScoreOf (dimensionWeights config) ds;
          reasoningMatches = keywordMatches userText (reasoningKeywords config)
      in if length reasoningMatches \<ge> 2
         then (let conf = calibrateConfidence (max weightedScore (3 / 10))
                            (confidenceSteepness config);
                   h = (if truthy fingerprint
                        then updateScoreHistory scoreHistory (the fingerprint) weightedScore
                               (Some REASONING) ''reasoning-override'' rnd
                        else scoreHistory)
               in (\<lparr>score = weightedScore, tier = Some REASONING,
                     confidence = max conf (85 / 100),
                     signals = sigs @ [''reasoning-override''], agenticScore = agentic\<rparr>, h))
         else (let history = (if truthy fingerprint
                              then getScoreHistory scoreHistory (the fingerprint)
                              else \<lparr>lastScore = 0, lastTier = None, consecutiveSameTier = 0,
                                    lastBoundary = []\<rparr>);
                   td = calculateTierWithHysteresis weightedScore (tierBoundaries config)
                          history (5 / 100);
                   sigs' = (if usedHysteresis td
                            then sigs @ [''hysteresis (''
                                   @ (case lastTier history of None \<Rightarrow> ''null''
                                      | Some t \<Rightarrow> tierName t) @ '' -> stable)'']
                            else sigs);
                   conf = calibrateConfidence (tdDistance td) (confidenceSteepness config);
                   h = (if truthy fingerprint
                        then updateScoreHistory scoreHistory (the fingerprint) weightedScore
                               (tdTier td) (tdBoundary td) rnd
                        else scoreHistory)
               in if conf < confidenceThreshold config
                  then (\<lparr>score = weightedScore, tier = None, confidence = conf,
                         signals = sigs', agenticScore = agentic\<rparr>, h)
                  else (\<lparr>score = weightedScore, tier = tdTier td, confidence = conf,
                         signals = sigs', agenticScore = agentic\<rparr>, h)))"

section \<open>The score cache (score-cache.ts)\<close>

text \<open>\<open>Date.now()\<close> is an argument \<open>now\<close> of the operation that reads the clock, in
  milliseconds.\<close>

record CachedScore =
  result :: ScoringResult
  timestamp :: int
  hitCount :: nat
  cachedLastTier :: Tier
  distanceToBoundary :: real
  boundaryName :: string

record ScoreCacheConfig =
  maxSize :: nat
  ttlMs :: int
  fuzzyBoundaryWidth :: real
  jitterThreshold :: nat

definition DEFAULT_CACHE_CONFIG :: ScoreCacheConfig where
  "DEFAULT_CACHE_CONFIG =
     \<lparr>maxSize = 1000, ttlMs = 24 * 60 * 60 * 1000, fuzzyBoundaryWidth = 5 / 100,
      jitterThreshold = 3\<rparr>"

text \<open>The fields of the class. The \<open>Map\<close> named \<open>cache\<close> is the list of its entries in
  insertion order, so that \<open>cache.size\<close> is the length of the list; the two jitter maps are
  only looked up by key.\<close>

record ScoreCache =
  cache :: "(string \<times> CachedScore) list"
  config :: ScoreCacheConfig
  accessOrder :: "string list"
  jitterTracker :: "string \<rightharpoonup> Tier list"
  jitterLocks :: "string \<rightharpoonup> Tier"

definition newScoreCache :: "ScoreCacheConfig \<Rightarrow> ScoreCache" where
  "newScoreCache cfg =
     \<lparr>cache = [], config = cfg, accessOrder = [], jitterTracker = Map.empty,
      jitterLocks = Map.empty\<rparr>"

definition updateAccessOrder :: "string \<Rightarrow> string list \<Rightarrow> string list" where
  "updateAccessOrder key order = remove1 key order @ [key]"

definition removeFromAccessOrder :: "string \<Rightarrow> string list \<Rightarrow> string list" where
  "removeFromAccessOrder key order = remove1 key order"

text \<open>\<open>get\<close> returns the entry, if any, and the cache after the call.\<close>

definition get_cached :: "ScoreCache \<Rightarrow> string \<Rightarrow> string option \<Rightarrow> int \<Rightarrow> CachedScore option \<times> ScoreCache" where
  "get_cached c prompt systemPrompt now =
     (let key = getCacheKey prompt systemPrompt;
          lockedTier = jitterLocks c key
      in case map_of (cache c) key of
           None \<Rightarrow> (None, c)
         | Some cached \<Rightarrow>
             if now - timestamp cached > ttlMs (config c)
             then (None, c\<lparr>cache := AList.delete key (cache c),
                            accessOrder := removeFromAccessOrder key (accessOrder c)\<rparr>)
             else (let cached' = cached\<lparr>hitCount := hitCount cached + 1\<rparr>;
                       c' = c\<lparr>accessOrder := updateAccessOrder key (accessOrder c),
                              cache := AList.update key cached' (cache c)\<rparr>
                   in case lockedTier of
                        Some lt \<Rightarrow>
                          if tier (result cached') \<noteq> Some lt
                          then (Some (cached'\<lparr>result := (result cached')
                                         \<lparr>tier := Some lt,
                                          confidence := max (confidence (result cached')) (7 / 10)\<rparr>\<rparr>),
                                c')
                          else (Some cached', c')
                      | None \<Rightarrow> (Some cached', c')))"

definition calculateBoundaryProximity :: "real \<Rightarrow> TierBoundaries \<Rightarrow> real \<times> string" where
  "calculateBoundaryProximity sc boundaries =
     (let distances = [(\<bar>sc - simpleMedium boundaries\<bar>, ''simple-medium''),
                       (\<bar>sc - mediumComplex boundaries\<bar>, ''medium-complex''),
                       (\<bar>sc - complexReasoning boundaries\<bar>, ''complex-reasoning'')]
      in foldl (\<lambda>m curr. if fst curr < fst m then curr else m) (hd distances) (tl distances))"

text \<open>The counting loop of \<open>trackJitter\<close> fills a \<open>Map\<close> in the order in which the tiers
  first occur; the sort by descending count is stable, so its first entry is the first
  tier of that order with the largest count.\<close>

definition countTier :: "(Tier \<times> nat) list \<Rightarrow> Tier \<Rightarrow> (Tier \<times> nat) list" where
  "countTier m t = AList.update t ((case map_of m t of None \<Rightarrow> 0 | Some n \<Rightarrow> n) + 1) m"

definition tierCounts :: "Tier list \<Rightarrow> (Tier \<times> nat) list" where
  "tierCounts recent = foldl countTier [] recent"

definition mostFrequent :: "Tier list \<Rightarrow> Tier option" where
  "mostFrequent recent =
     (case sort_key (\<lambda>e. - int (snd e)) (tierCounts recent) of
        [] \<Rightarrow> None
      | e # _ \<Rightarrow> Some (fst e))"

text \<open>\<open>history.slice(-n)\<close>: the last \<open>n\<close> elements, and the whole array for \<open>n = 0\<close>.\<close>

definition sliceLast :: "nat \<Rightarrow> 'a list \<Rightarrow> 'a list" where
  "sliceLast n xs = (if n = 0 then xs else drop (length xs - n) xs)"

definition trackJitter :: "ScoreCache \<Rightarrow> string \<Rightarrow> Tier option \<Rightarrow> ScoreCache" where
  "trackJitter c key t =
     (case t of
        None \<Rightarrow> c
      | Some tr \<Rightarrow>
          (let pushed = (case jitterTracker c key of None \<Rightarrow> [] | Some h \<Rightarrow> h) @ [tr];
               history = (if length pushed > 5 then tl pushed else pushed);
               c1 = c\<lparr>jitterTracker := (jitterTracker c)(key \<mapsto> history)\<rparr>
           in if length history \<ge> jitterThreshold (config c)
              then (let recent = sliceLast (jitterThreshold (config c)) history;
                        uniqueTiers = remdups recent
                    in if length uniqueTiers \<ge> 2
                       then (case mostFrequent recent of
                               Some m \<Rightarrow> c1\<lparr>jitterLocks := (jitterLocks c1)(key \<mapsto> m)\<rparr>
                             | None \<Rightarrow> c1)
                       else c1)
              else c1))"

text \<open>\<open>if (oldest)\<close> is the truth test of a string: an empty key leaves the maps alone.\<close>

definition evictLRU :: "ScoreCache \<Rightarrow> ScoreCache" where
  "evictLRU c =
     (case accessOrder c of
        [] \<Rightarrow> c
      | oldest # rest \<Rightarrow>
          (let c1 = c\<lparr>accessOrder := rest\<rparr>
           in if oldest \<noteq> []
              then c1\<lparr>cache := AList.delete oldest (cache c1),
                      jitterTracker := (jitterTracker c1)(oldest := None),
                      jitterLocks := (jitterLocks c1)(oldest := None)\<rparr>
              else c1))"

definition set_cached ::
  "ScoreCache \<Rightarrow> string \<Rightarrow> string option \<Rightarrow> ScoringResult \<Rightarrow> TierBoundaries \<Rightarrow> real \<Rightarrow> int
     \<Rightarrow> ScoreCache" where
  "set_cached c prompt systemPrompt res boundaries sc now =
     (let key = getCacheKey prompt systemPrompt;
          (distance, bName) = calculateBoundaryProximity sc boundaries;
          c1 = trackJitter c key (tier res);
          cached = \<lparr>result = res, timestamp = now, hitCount = 1,
                    cachedLastTier = (case tier res of None \<Rightarrow> MEDIUM | Some t \<Rightarrow> t),
                    distanceToBoundary = distance, boundaryName = bName\<rparr>;
          c2 = (if length (cache c1) \<ge> maxSize (config c1) \<and> map_of (cache c1) key = None
                then evictLRU c1 else c1)
      in c2\<lparr>cache := AList.update key cached (cache c2),
             accessOrder := updateAccessOrder key (accessOrder c2)\<rparr>)"

definition shouldUseCachedTier :: "ScoreCache \<Rightarrow> CachedScore \<Rightarrow> real \<Rightarrow> Tier option \<Rightarrow> bool" where
  "shouldUseCachedTier c cached newScore newTier =
     (if newTier = None \<or> tier (result cached) = None then False
      else if tier (result cached) = newTier then False
      else (let fuzzyRange = fuzzyBoundaryWidth (config c)
            in if distanceToBoundary cached < fuzzyRange then True else False))"

definition clear :: "ScoreCache \<Rightarrow> ScoreCache" where
  "clear c = c\<lparr>cache := [], accessOrder := [], jitterTracker := Map.empty,
               jitterLocks := Map.empty\<rparr>"

text \<open>\<open>cleanup\<close> visits the entries that the cache holds when it starts and returns the
  number of entries it removed.\<close>

definition cleanupStep :: "int \<Rightarrow> ScoreCache \<times> nat \<Rightarrow> string \<times> CachedScore \<Rightarrow> ScoreCache \<times> nat" where
  "cleanupStep now acc entry =
     (let (c, cleaned) = acc; (key, cached) = entry
      in if now - timestamp cached > ttlMs (config c)
         then (c\<lparr>cache := AList.delete key (cache c),
                 accessOrder := removeFromAccessOrder key (accessOrder c),
                 jitterTracker := (jitterTracker c)(key := None),
                 jitterLocks := (jitterLocks c)(key := None)\<rparr>, cleaned + 1)
         else (c, cleaned))"

definition cleanup :: "ScoreCache \<Rightarrow> int \<Rightarrow> ScoreCache \<times> nat" where
  "cleanup c now = foldl (cleanupStep now) (c, 0) (cache c)"

text \<open>A call of one of the four public operations, and a run of calls on a cache.\<close>

datatype CacheOp =
  Get string "string option" int
| Set string "string option" ScoringResult TierBoundaries real int
| Cleanup int
| Clear

fun applyOp :: "ScoreCache \<Rightarrow> CacheOp \<Rightarrow> ScoreCache" where
  "applyOp c (Get p s now) = snd (get_cached c p s now)"
| "applyOp c (Set p s res b sc now) = set_cached c p s res b sc now"
| "applyOp c (Cleanup now) = fst (cleanup c now)"
| "applyOp c Clear = clear c"

definition runOps :: "ScoreCacheConfig \<Rightarrow> CacheOp list \<Rightarrow> ScoreCache" where
  "runOps cfg ops = foldl applyOp (newScoreCache cfg) ops"

section \<open>The session store (session store module of the sources)\<close>

subsection \<open>The health tracker seen from the session store\<close>

text \<open>
  Modelled from the spec: \<open>model-health.ts\<close> is not among the source files; the session
  store calls its \<open>isAvailable\<close> and \<open>getBestModel\<close>. The spec (4.5) and the listing in
  \<open>docs/weight-scoring.md\<close> give \<open>getBestModel(tier, candidates)\<close> as: keep the candidates
  that are available, sort them by status priority, success rate and latency, return the
  first one, or null when there is none (an empty model name counts as none). The tracker
  is a record of the availability test and of the comparison of two models, "a goes
  before b"; the sort is a stable insertion sort.
\<close>

record HealthTracker =
  isAvailable :: "string \<Rightarrow> bool"
  healthier :: "string \<Rightarrow> string \<Rightarrow> bool"

fun insertBy :: "('a \<Rightarrow> 'a \<Rightarrow> bool) \<Rightarrow> 'a \<Rightarrow> 'a list \<Rightarrow> 'a list" where
  "insertBy before x [] = [x]"
| "insertBy before x (y # ys) = (if before y x then y # insertBy before x ys else x # y # ys)"

definition sortBy :: "('a \<Rightarrow> 'a \<Rightarrow> bool) \<Rightarrow> 'a list \<Rightarrow> 'a list" where
  "sortBy before xs = foldr (insertBy before) xs []"

definition getBestModel :: "HealthTracker \<Rightarrow> Tier \<Rightarrow> string list \<Rightarrow> string option" where
  "getBestModel h t candidates =
     (case sortBy (healthier h) (filter (isAvailable h) candidates) of
        [] \<Rightarrow> None
      | m # _ \<Rightarrow> if m = [] then None else Some m)"

subsection \<open>Entries and configuration\<close>

record SessionContextSnapshot =
  topics :: "string list"
  intent :: string
  complexityTrend :: real
  hasUsedTools :: bool
  lastToolSequence :: "string list"
  avgResponseLength :: real

text \<open>\<open>Partial<SessionContextSnapshot>\<close>: every field may be absent.\<close>

record PartialContext =
  pTopics :: "string list option"
  pIntent :: "string option"
  pComplexityTrend :: "real option"
  pHasUsedTools :: "bool option"
  pLastToolSequence :: "string list option"
  pAvgResponseLength :: "real option"

record SessionPerformanceMetrics =
  successRate :: real
  avgLatencyMs :: real
  avgCost :: real
  consecutiveFailures :: nat
  totalInputTokens :: nat
  totalOutputTokens :: nat
  requestTimestamps :: "int list"

record SessionDegradationState =
  isDegraded :: bool
  originalModel :: "string option"
  originalTier :: "Tier option"
  reason :: "string option"
  degradedAt :: "int option"
  recoveryRequests :: nat

record SessionEntry =
  model :: string
  sessionTier :: Tier
  createdAt :: int
  lastUsedAt :: int
  requestCount :: nat
  contextSnapshot :: SessionContextSnapshot
  metrics :: SessionPerformanceMetrics
  degradation :: SessionDegradationState
  recentErrors :: "(int \<times> string \<times> string) list"

record SessionConfig =
  enabled :: bool
  timeoutMs :: int
  headerName :: string
  degradationThreshold :: nat
  recoveryThreshold :: nat
  maxRequestHistory :: nat

definition DEFAULT_SESSION_CONFIG :: SessionConfig where
  "DEFAULT_SESSION_CONFIG =
     \<lparr>enabled = False, timeoutMs = 30 * 60 * 1000, headerName = ''x-session-id'',
      degradationThreshold = 2, recoveryThreshold = 3, maxRequestHistory = 50\<rparr>"

record SessionStore =
  sessions :: "string \<rightharpoonup> SessionEntry"
  sessionConfig :: SessionConfig

definition newSessionStore :: "SessionConfig \<Rightarrow> SessionStore" where
  "newSessionStore cfg = \<lparr>sessions = Map.empty, sessionConfig = cfg\<rparr>"

record RequestResult =
  success :: bool
  latencyMs :: real
  cost :: real
  inputTokens :: nat
  outputTokens :: nat
  error :: "string option"

subsection \<open>getSession, setSession\<close>

definition getSession :: "SessionStore \<Rightarrow> string \<Rightarrow> int \<Rightarrow> SessionEntry option \<times> SessionStore" where
  "getSession st sessionId now =
     (if \<not> enabled (sessionConfig st) \<or> sessionId = [] then (None, st)
      else (case sessions st sessionId of
              None \<Rightarrow> (None, st)
            | Some entry \<Rightarrow>
                if now - lastUsedAt entry > timeoutMs (sessionConfig st)
                then (None, st\<lparr>sessions := (sessions st)(sessionId := None)\<rparr>)
                else (let entry' = entry\<lparr>lastUsedAt := now\<rparr>
                      in (Some entry', st\<lparr>sessions := (sessions st)(sessionId \<mapsto> entry')\<rparr>))))"

text \<open>\<open>[...new Set([...a, ...b])].slice(0, 10)\<close>: the first occurrences, in order.\<close>

definition uniqueFirst :: "'a list \<Rightarrow> 'a list" where
  "uniqueFirst xs = rev (remdups (rev xs))"

definition updateContextSnapshot :: "SessionContextSnapshot \<Rightarrow> PartialContext \<Rightarrow> SessionContextSnapshot" where
  "updateContextSnapshot snapshot ctx =
     (let s1 = (case pTopics ctx of
                  Some ts \<Rightarrow> snapshot\<lparr>topics := take 10 (uniqueFirst (topics snapshot @ ts))\<rparr>
                | None \<Rightarrow> snapshot);
          s2 = (case pIntent ctx of
                  Some i \<Rightarrow> if i \<noteq> [] then s1\<lparr>intent := i\<rparr> else s1
                | None \<Rightarrow> s1);
          s3 = (case pComplexityTrend ctx of
                  Some t \<Rightarrow> s2\<lparr>complexityTrend := 7 / 10 * complexityTrend s2 + 3 / 10 * t\<rparr>
                | None \<Rightarrow> s2);
          s4 = (case pHasUsedTools ctx of
                  Some b \<Rightarrow> s3\<lparr>hasUsedTools := (hasUsedTools s3 \<or> b)\<rparr>
                | None \<Rightarrow> s3);
          s5 = (case pLastToolSequence ctx of
                  Some q \<Rightarrow> s4\<lparr>lastToolSequence := q\<rparr>
                | None \<Rightarrow> s4)
      in (case pAvgResponseLength ctx of
            Some l \<Rightarrow> s5\<lparr>avgResponseLength := 7 / 10 * avgResponseLength s5 + 3 / 10 * l\<rparr>
          | None \<Rightarrow> s5))"

text \<open>The snapshot of a new session: \<open>context?.field || default\<close>, where \<open>||\<close> also
  replaces an empty string and the number 0.\<close>

definition initialSnapshot :: "PartialContext option \<Rightarrow> SessionContextSnapshot" where
  "initialSnapshot context =
     \<lparr>topics = (case Option.bind context pTopics of Some ts \<Rightarrow> ts | None \<Rightarrow> []),
      intent = (case Option.bind context pIntent of
                  Some i \<Rightarrow> if i \<noteq> [] then i else ''general'' | None \<Rightarrow> ''general''),
      complexityTrend = (case Option.bind context pComplexityTrend of
                           Some t \<Rightarrow> if t \<noteq> 0 then t else 1 / 2 | None \<Rightarrow> 1 / 2),
      hasUsedTools = (case Option.bind context pHasUsedTools of Some b \<Rightarrow> b | None \<Rightarrow> False),
      lastToolSequence = (case Option.bind context pLastToolSequence of
                            Some q \<Rightarrow> q | None \<Rightarrow> []),
      avgResponseLength = (case Option.bind context pAvgResponseLength of
                             Some l \<Rightarrow> l | None \<Rightarrow> 0)\<rparr>"

definition setSession ::
  "SessionStore \<Rightarrow> string \<Rightarrow> string \<Rightarrow> Tier \<Rightarrow> PartialContext option \<Rightarrow> int \<Rightarrow> SessionStore" where
  "setSession st sessionId mdl t context now =
     (if \<not> enabled (sessionConfig st) \<or> sessionId = [] then st
      else (case sessions st sessionId of
              Some existing \<Rightarrow>
                (let e1 = existing\<lparr>lastUsedAt := now, requestCount := requestCount existing + 1\<rparr>;
                     e2 = (if model e1 \<noteq> mdl
                           then (let d = (if \<not> isDegraded (degradation e1)
                                          then (degradation e1)\<lparr>originalModel := Some (model e1),
                                                 originalTier := Some (sessionTier e1)\<rparr>
                                          else degradation e1)
                                 in e1\<lparr>degradation := d, model := mdl, sessionTier := t\<rparr>)
                           else e1);
                     e3 = (case context of
                             Some ctx \<Rightarrow> e2\<lparr>contextSnapshot :=
                                           updateContextSnapshot (contextSnapshot e2) ctx\<rparr>
                           | None \<Rightarrow> e2);
                     ts = requestTimestamps (metrics e3) @ [now];
                     ts' = (if length ts > maxRequestHistory (sessionConfig st) then tl ts else ts);
                     e4 = e3\<lparr>metrics := (metrics e3)\<lparr>requestTimestamps := ts'\<rparr>\<rparr>
                 in st\<lparr>sessions := (sessions st)(sessionId \<mapsto> e4)\<rparr>)
            | None \<Rightarrow>
                st\<lparr>sessions := (sessions st)(sessionId \<mapsto>
                     \<lparr>model = mdl, sessionTier = t, createdAt = now, lastUsedAt = now,
                      requestCount = 1, contextSnapshot = initialSnapshot context,
                      metrics = \<lparr>successRate = 1, avgLatencyMs = 0, avgCost = 0,
                                 consecutiveFailures = 0, totalInputTokens = 0,
                                 totalOutputTokens = 0, requestTimestamps = [now]\<rparr>,
                      degradation = \<lparr>isDegraded = False, originalModel = None,
                                     originalTier = None, reason = None, degradedAt = None,
                                     recoveryRequests = 0\<rparr>,
                      recentErrors = []\<rparr>)\<rparr>))"

subsection \<open>recordResult, degradeSession, restoreOriginalModel\<close>

text \<open>\<open>getTierModels\<close> is the placeholder of the source: it returns the empty array for
  every tier.\<close>

definition getTierModels :: "Tier \<Rightarrow> string list" where
  "getTierModels t = []"

definition degradeSession :: "HealthTracker \<Rightarrow> SessionStore \<Rightarrow> string \<Rightarrow> string \<Rightarrow> int \<Rightarrow> SessionStore" where
  "degradeSession health st sessionId why now =
     (case sessions st sessionId of
        None \<Rightarrow> st
      | Some entry \<Rightarrow>
          if isDegraded (degradation entry) then st
          else (let currentModel = model entry;
                    currentTier = sessionTier entry;
                    tierModels = getTierModels currentTier
                in case getBestModel health currentTier tierModels of
                     Some stableModel \<Rightarrow>
                       if stableModel \<noteq> currentModel
                       then st\<lparr>sessions := (sessions st)(sessionId \<mapsto>
                              entry\<lparr>degradation :=
                                      \<lparr>isDegraded = True, originalModel = Some currentModel,
                                       originalTier = Some currentTier, reason = Some why,
                                       degradedAt = Some now, recoveryRequests = 0\<rparr>,
                                    model := stableModel,
                                    metrics := (metrics entry)\<lparr>consecutiveFailures := 0\<rparr>\<rparr>)\<rparr>
                       else st
                   | None \<Rightarrow> st))"

definition restoreOriginalModel :: "HealthTracker \<Rightarrow> SessionStore \<Rightarrow> string \<Rightarrow> SessionStore" where
  "restoreOriginalModel health st sessionId =
     (case sessions st sessionId of
        None \<Rightarrow> st
      | Some entry \<Rightarrow>
          if \<not> isDegraded (degradation entry) then st
          else (case (originalModel (degradation entry), originalTier (degradation entry)) of
                  (Some om, Some ot) \<Rightarrow>
                    if om = [] then st
                    else if isAvailable health om
                    then st\<lparr>sessions := (sessions st)(sessionId \<mapsto>
                           entry\<lparr>model := om, sessionTier := ot,
                                 degradation :=
                                   \<lparr>isDegraded = False, originalModel = None,
                                    originalTier = None, reason = None, degradedAt = None,
                                    recoveryRequests = 0\<rparr>\<rparr>)\<rparr>
                    else st
                | _ \<Rightarrow> st))"

definition recordResult ::
  "HealthTracker \<Rightarrow> SessionStore \<Rightarrow> string \<Rightarrow> RequestResult \<Rightarrow> int \<Rightarrow> SessionStore" where
  "recordResult health st sessionId res now =
     (if \<not> enabled (sessionConfig st) \<or> sessionId = [] then st
      else (case sessions st sessionId of
              None \<Rightarrow> st
            | Some entry \<Rightarrow>
                (let alpha = 3 / 10;
                     m0 = metrics entry;
                     m1 = m0\<lparr>totalInputTokens := totalInputTokens m0 + inputTokens res,
                             totalOutputTokens := totalOutputTokens m0 + outputTokens res,
                             avgLatencyMs := (1 - alpha) * avgLatencyMs m0 + alpha * latencyMs res,
                             avgCost := (1 - alpha) * avgCost m0 + alpha * cost res\<rparr>
                 in if success res
                    then (let m2 = m1\<lparr>consecutiveFailures := 0,
                                       successRate := (1 - alpha) * successRate m1 + alpha * 1\<rparr>;
                              e2 = entry\<lparr>metrics := m2\<rparr>
                          in if isDegraded (degradation e2)
                             then (let d = (degradation e2)
                                             \<lparr>recoveryRequests := recoveryRequests (degradation e2) + 1\<rparr>;
                                       e3 = e2\<lparr>degradation := d\<rparr>;
                                       st3 = st\<lparr>sessions := (sessions st)(sessionId \<mapsto> e3)\<rparr>
                                   in if recoveryRequests d \<ge> recoveryThreshold (sessionConfig st)
                                      then restoreOriginalModel health st3 sessionId
                                      else st3)
                             else st\<lparr>sessions := (sessions st)(sessionId \<mapsto> e2)\<rparr>)
                    else (let m2 = m1\<lparr>consecutiveFailures := consecutiveFailures m1 + 1,
                                       successRate := (1 - alpha) * successRate m1 + alpha * 0\<rparr>;
                              errs = (case error res of
                                        Some e \<Rightarrow>
                                          if e \<noteq> []
                                          then (let pushed = recentErrors entry @ [(now, e, model entry)]
                                                in if length pushed > 5 then tl pushed else pushed)
                                          else recentErrors entry
                                      | None \<Rightarrow> recentErrors entry);
                              e2 = entry\<lparr>metrics := m2, recentErrors := errs\<rparr>;
                              st2 = st\<lparr>sessions := (sessions st)(sessionId \<mapsto> e2)\<rparr>
                          in if consecutiveFailures m2 \<ge> degradationThreshold (sessionConfig st)
                             then degradeSession health st2 sessionId
                                    (showNat (consecutiveFailures m2) @ '' consecutive failures'') now
                             else st2))))"

definition isDegradedSession :: "SessionStore \<Rightarrow> string \<Rightarrow> bool" where
  "isDegradedSession st sessionId =
     (case sessions st sessionId of None \<Rightarrow> False | Some entry \<Rightarrow> isDegraded (degradation entry))"

definition touchSession :: "SessionStore \<Rightarrow> string \<Rightarrow> int \<Rightarrow> SessionStore" where
  "touchSession st sessionId now =
     (if \<not> enabled (sessionConfig st) \<or> sessionId = [] then st
      else (case sessions st sessionId of
              Some entry \<Rightarrow>
                st\<lparr>sessions := (sessions st)(sessionId \<mapsto>
                     entry\<lparr>lastUsedAt := now, requestCount := requestCount entry + 1\<rparr>)\<rparr>
            | None \<Rightarrow> st))"

section \<open>The route orchestrator (index.ts)\<close>

record TierConfig =
  primary :: string
  fallback :: "string list"

record Overrides =
  maxTokensForceComplex :: real
  structuredOutputMinTier :: Tier
  ambiguousDefaultTier :: Tier
  agenticMode :: "bool option"

record RoutingConfig =
  scoring :: ScoringConfig
  overrides :: Overrides
  tiers :: "Tier \<Rightarrow> TierConfig"
  agenticTiers :: "(Tier \<Rightarrow> TierConfig) option"

text \<open>The options of \<open>route\<close>; an absent flag takes its default \<open>true\<close>. \<open>modelPricing\<close> is
  only handed on to \<open>selectModel\<close> for the cost estimate and is left out with it.\<close>

record RouterOptions =
  routingConfig :: RoutingConfig
  enableCache :: "bool option"
  enableAdaptive :: "bool option"
  enableHealthTracking :: "bool option"
  sessionId :: "string option"

record RoutingDecision =
  decisionModel :: string
  decisionTier :: Tier
  decisionConfidence :: real
  decisionMethod :: string
  decisionMeta :: "(string \<times> string list) option"

text \<open>
  Modelled from the spec: \<open>selector.ts\<close> is not among the source files. The spec (4.7,
  step 12) has the decision carry the tier, the confidence and the method it is called
  with and a model of the tier's table entry; \<open>selectModel\<close> is modelled as returning
  exactly that, with the primary model of the tier. The reasoning text and the cost
  estimate of the decision are left out of the model, and with them the health check of
  \<open>route\<close>, which only appends to the reasoning text.
\<close>

definition selectModel :: "Tier \<Rightarrow> real \<Rightarrow> string \<Rightarrow> (Tier \<Rightarrow> TierConfig) \<Rightarrow> RoutingDecision" where
  "selectModel t conf method tierConfigs =
     \<lparr>decisionModel = primary (tierConfigs t), decisionTier = t, decisionConfidence = conf,
      decisionMethod = method, decisionMeta = None\<rparr>"

text \<open>
  The process-wide state that \<open>route\<close> reads and writes: the global score cache (null
  until \<open>getScoreCache\<close> creates it with the default configuration), the score history
  of the classifier and the adaptive weights. Modelled from the spec:
  \<open>adaptive-weights.ts\<close> is not among the source files; \<open>getAllWeights()\<close> returns the
  current weight of every dimension (4.4), here the list \<open>adaptiveWeights\<close>, which the
  manager never leaves empty.
\<close>

record RouterState =
  globalCache :: "ScoreCache option"
  scoreHistoryState :: HistoryMap
  adaptiveWeights :: "real list"

definition getScoreCache :: "RouterState \<Rightarrow> ScoreCache" where
  "getScoreCache st =
     (case globalCache st of None \<Rightarrow> newScoreCache DEFAULT_CACHE_CONFIG | Some c \<Rightarrow> c)"

text \<open>\<open>/json|structured|schema/i.test(systemPrompt)\<close>.\<close>

definition structuredOutputPattern :: "string \<Rightarrow> bool" where
  "structuredOutputPattern s =
     (let l = toLowerCase s
      in includesStr l ''json'' \<or> includesStr l ''structured'' \<or> includesStr l ''schema'')"

definition tierRank :: "Tier \<Rightarrow> nat" where
  "tierRank t = (case t of SIMPLE \<Rightarrow> 0 | MEDIUM \<Rightarrow> 1 | COMPLEX \<Rightarrow> 2 | REASONING \<Rightarrow> 3)"

definition estimateTokens :: "string \<Rightarrow> string option \<Rightarrow> nat" where
  "estimateTokens prompt systemPrompt = (length (fullText prompt systemPrompt) + 3) div 4"

text \<open>\<open>route\<close> takes the state, the clock value and the random number of this call and
  returns the decision with the state after the call.\<close>

definition route ::
  "string \<Rightarrow> string option \<Rightarrow> nat \<Rightarrow> RouterOptions \<Rightarrow> RouterState \<Rightarrow> int \<Rightarrow> real
     \<Rightarrow> RoutingDecision \<times> RouterState" where
  "route prompt systemPrompt maxOutputTokens options st now rnd =
     (let cfg = routingConfig options;
          useCache = (case enableCache options of None \<Rightarrow> True | Some b \<Rightarrow> b);
          useAdaptive = (case enableAdaptive options of None \<Rightarrow> True | Some b \<Rightarrow> b);
          fingerprint = generateFingerprint prompt systemPrompt;
          estimatedTokens = estimateTokens prompt systemPrompt;
          cache0 = (if useCache then Some (getScoreCache st) else None);
          (cached, cache1) =
             (case cache0 of
                None \<Rightarrow> (None, None)
              | Some c \<Rightarrow> (let (r, c') = get_cached c prompt systemPrompt now in (r, Some c')));
          (ruleResult, history') =
             classifyByRules prompt systemPrompt estimatedTokens (scoring cfg) (Some fingerprint)
               (scoreHistoryState st) rnd;
          adaptiveOn = (useAdaptive \<and> tier ruleResult \<noteq> None);
          weightFactor = sum_list (adaptiveWeights st) / real (length (adaptiveWeights st));
          adjustedScore = (if adaptiveOn then score ruleResult * weightFactor else score ruleResult);
          adjustedConfidence =
             (case (cached, cache1) of
                (Some cd, Some c) \<Rightarrow>
                  if adaptiveOn \<and> shouldUseCachedTier c cd adjustedScore (tier ruleResult)
                     \<and> tier (result cd) \<noteq> None
                  then max (confidence (result cd)) (7 / 10)
                  else confidence ruleResult
              | _ \<Rightarrow> confidence ruleResult);
          cache2 =
             (case cache1 of
                Some c \<Rightarrow>
                  Some (set_cached c prompt systemPrompt
                          (ruleResult\<lparr>score := adjustedScore, confidence := adjustedConfidence\<rparr>)
                          (tierBoundaries (scoring cfg)) adjustedScore now)
              | None \<Rightarrow> None);
          st' = st\<lparr>globalCache := (case cache2 of Some c \<Rightarrow> Some c | None \<Rightarrow> globalCache st),
                   scoreHistoryState := history'\<rparr>;
          isAutoAgentic = (agenticScore ruleResult \<ge> 75 / 100);
          isExplicitAgentic = (case agenticMode (overrides cfg) of None \<Rightarrow> False | Some b \<Rightarrow> b);
          useAgenticTiers = ((isAutoAgentic \<or> isExplicitAgentic) \<and> agenticTiers cfg \<noteq> None);
          tierConfigs = (if useAgenticTiers then the (agenticTiers cfg) else tiers cfg)
      in if real estimatedTokens > maxTokensForceComplex (overrides cfg)
         then (selectModel COMPLEX (95 / 100) ''rules'' tierConfigs, st')
         else (let hasStructuredOutput =
                     (truthy systemPrompt \<and> structuredOutputPattern (the systemPrompt));
                   (t0, conf) =
                     (case Option.bind cached (\<lambda>cd. tier (result cd)) of
                        Some ct \<Rightarrow>
                          if useCache then (ct, adjustedConfidence)
                          else (case tier ruleResult of
                                  Some rt \<Rightarrow> (rt, adjustedConfidence)
                                | None \<Rightarrow> (ambiguousDefaultTier (overrides cfg), 1 / 2))
                      | None \<Rightarrow>
                          (case tier ruleResult of
                             Some rt \<Rightarrow> (rt, adjustedConfidence)
                           | None \<Rightarrow> (ambiguousDefaultTier (overrides cfg), 1 / 2)));
                   minTier = structuredOutputMinTier (overrides cfg);
                   t1 = (if hasStructuredOutput \<and> tierRank t0 < tierRank minTier
                         then minTier else t0);
                   decision = selectModel t1 conf ''rules'' tierConfigs
               in (decision\<lparr>decisionMeta := Some (fingerprint, signals ruleResult)\<rparr>, st')))"

section \<open>Statements of the specification used for comparison\<close>

text \<open>
  The similarity predicate in the words of the specification (4.1): the sorted feature
  tag blocks are equal, and the number of differing positions in the common prefix of
  the two content digests plus the difference of their lengths, divided by the larger
  length, is below one tenth.
\<close>

definition specSimilar :: "string list \<Rightarrow> string \<Rightarrow> string list \<Rightarrow> string \<Rightarrow> bool" where
  "specSimilar tags1 digest1 tags2 digest2 =
     (sort tags1 = sort tags2
      \<and> real (diffCount digest1 digest2
               + (max (length digest1) (length digest2) - min (length digest1) (length digest2)))
          / real (max (length digest1) (length digest2)) < 1 / 10)"

section \<open>Example inputs\<close>

definition enabledSessionConfig :: SessionConfig where
  "enabledSessionConfig = DEFAULT_SESSION_CONFIG\<lparr>enabled := True\<rparr>"

definition timeoutFailure :: RequestResult where
  "timeoutFailure =
     \<lparr>success = False, latencyMs = 100, cost = 0, inputTokens = 50, outputTokens = 0,
      error = Some ''timeout''\<rparr>"

definition allHealthy :: HealthTracker where
  "allHealthy = \<lparr>isAvailable = (\<lambda>m. True), healthier = (\<lambda>a b. True)\<rparr>"

definition pinnedStore :: SessionStore where
  "pinnedStore = setSession (newSessionStore enabledSessionConfig) ''session-1'' ''gpt-4'' COMPLEX None 0"

definition defaultBoundaries :: TierBoundaries where
  "defaultBoundaries = \<lparr>simpleMedium = 0, mediumComplex = 18 / 100, complexReasoning = 4 / 10\<rparr>"

definition simpleResult :: ScoringResult where
  "simpleResult = \<lparr>score = - (1 / 10), tier = Some SIMPLE, confidence = 9 / 10, signals = [],
                   agenticScore = 0\<rparr>"

definition mediumResult :: ScoringResult where
  "mediumResult = \<lparr>score = 5 / 100, tier = Some MEDIUM, confidence = 6 / 10, signals = [],
                   agenticScore = 0\<rparr>"



definition jitterOps :: "CacheOp list" where
  "jitterOps = [Set ''prompt'' None simpleResult defaultBoundaries (- (1 / 10)) 0,
                Set ''prompt'' None simpleResult defaultBoundaries (- (1 / 10)) 1,
                Set ''prompt'' None mediumResult defaultBoundaries (5 / 100) 2]"

text \<open>A scoring configuration with the documented default weights, boundaries and
  thresholds; \<open>config.ts\<close> is not among the source files, and the keyword lists are the
  examples that \<open>docs/weight-scoring.md\<close> names for each dimension.\<close>

definition exampleWeights :: "string \<rightharpoonup> real" where
  "exampleWeights =
     map_of [(''tokenCount'', 8 / 100), (''codePresence'', 15 / 100),
             (''reasoningMarkers'', 18 / 100), (''technicalTerms'', 10 / 100),
             (''creativeMarkers'', 5 / 100), (''simpleIndicators'', 2 / 100),
             (''multiStepPatterns'', 12 / 100), (''questionComplexity'', 5 / 100),
             (''imperativeVerbs'', 3 / 100), (''constraintCount'', 4 / 100),
             (''outputFormat'', 3 / 100), (''referenceComplexity'', 2 / 100),
             (''negationComplexity'', 1 / 100), (''domainSpecificity'', 2 / 100),
             (''agenticTask'', 4 / 100)]"

definition exampleScoring :: ScoringConfig where
  "exampleScoring =
     \<lparr>tokenCountThresholds = \<lparr>simple = 50, complex = 500\<rparr>,
      codeKeywords = [''function'', ''class'', ''import'', ''def'', ''async'', ''await'', ''const''],
      reasoningKeywords = [''prove'', ''theorem'', ''step by step'', ''chain of thought''],
      technicalKeywords = [''algorithm'', ''kubernetes'', ''distributed''],
      creativeKeywords = [''story'', ''poem'', ''brainstorm''],
      simpleKeywords = [''what is'', ''define'', ''translate''],
      imperativeVerbs = [''build'', ''create'', ''implement'', ''deploy''],
      constraintIndicators = [''at most'', ''maximum''],
      outputFormatKeywords = [''json'', ''yaml'', ''schema'', ''structured''],
      referenceKeywords = [''above'', ''the docs'', ''the api''],
      negationKeywords = [''avoid'', ''without''],
      domainSpecificKeywords = [''quantum'', ''fpga'', ''genomics'', ''zero-knowledge''],
      agenticTaskKeywords = [''read file'', ''edit'', ''execute'', ''deploy'', ''step 1'', ''fix'',
                             ''debug'', ''verify''],
      dimensionWeights = exampleWeights,
      tierBoundaries = \<lparr>simpleMedium = 0, mediumComplex = 18 / 100, complexReasoning = 4 / 10\<rparr>,
      confidenceSteepness = 12,
      confidenceThreshold = 7 / 10\<rparr>"


definition exampleTiers :: "Tier \<Rightarrow> TierConfig" where
  "exampleTiers t =
     (case t of
        SIMPLE \<Rightarrow> \<lparr>primary = ''gemini-2.5-flash'', fallback = []\<rparr>
      | MEDIUM \<Rightarrow> \<lparr>primary = ''grok-code-fast-1'', fallback = []\<rparr>
      | COMPLEX \<Rightarrow> \<lparr>primary = ''gemini-2.5-pro'', fallback = []\<rparr>
      | REASONING \<Rightarrow> \<lparr>primary = ''grok-4-fast-reasoning'', fallback = []\<rparr>)"

definition exampleOptions :: RouterOptions where
  "exampleOptions =
     \<lparr>routingConfig =
        \<lparr>scoring = exampleScoring,
         overrides = \<lparr>maxTokensForceComplex = 100000, structuredOutputMinTier = MEDIUM,
                      ambiguousDefaultTier = MEDIUM, agenticMode = Some False\<rparr>,
         tiers = exampleTiers, agenticTiers = None\<rparr>,
      enableCache = None, enableAdaptive = None, enableHealthTracking = None,
      sessionId = None\<rparr>"

definition farSimple :: ScoringResult where
  "farSimple = \<lparr>score = - 1, tier = Some SIMPLE, confidence = 9 / 10, signals = [],
                agenticScore = 0\<rparr>"

definition nearSimple :: ScoringResult where
  "nearSimple = \<lparr>score = 1 / 100, tier = Some SIMPLE, confidence = 6 / 10, signals = [],
                 agenticScore = 0\<rparr>"

definition farState :: RouterState where
  "farState =
     \<lparr>globalCache = Some (set_cached (newScoreCache DEFAULT_CACHE_CONFIG) ''Prove the theorem'' None
                            farSimple defaultBoundaries (- 1) 0),
      scoreHistoryState = [], adaptiveWeights = replicate 15 1\<rparr>"

definition nearState :: RouterState where
  "nearState =
     \<lparr>globalCache = Some (set_cached (newScoreCache DEFAULT_CACHE_CONFIG) ''Prove the theorem'' None
                            nearSimple defaultBoundaries (1 / 100) 0),
      scoreHistoryState = [], adaptiveWeights = replicate 15 1\<rparr>"


definition longPrompt :: string where
  "longPrompt = replicate 479999 (CHR ''a'')"

section \<open>Invariants and notions used in the statements\<close>








text \<open>The tier after the structured-output override of \<open>route\<close>, the classifier's result
  that \<open>route\<close> computes, and the scalar by which \<open>route\<close> scales the score.\<close>

definition raiseForStructuredOutput :: "RoutingConfig \<Rightarrow> string option \<Rightarrow> Tier \<Rightarrow> Tier" where
  "raiseForStructuredOutput cfg systemPrompt t =
     (if truthy systemPrompt \<and> structuredOutputPattern (the systemPrompt)
         \<and> tierRank t < tierRank (structuredOutputMinTier (overrides cfg))
      then structuredOutputMinTier (overrides cfg) else t)"

definition freshResult :: "string \<Rightarrow> string option \<Rightarrow> RouterOptions \<Rightarrow> RouterState \<Rightarrow> real \<Rightarrow> ScoringResult" where
  "freshResult prompt sys options st rnd =
     fst (classifyByRules prompt sys (estimateTokens prompt sys) (scoring (routingConfig options))
            (Some (generateFingerprint prompt sys)) (scoreHistoryState st) rnd)"

definition weightFactor :: "RouterState \<Rightarrow> real" where
  "weightFactor st = sum_list (adaptiveWeights st) / real (length (adaptiveWeights st))"

section \<open>Properties of the fingerprint\<close>



text \<open>
  C3. The claim: for fingerprints made by \<open>generateFingerprint\<close>, \<open>fingerprintsSimilar\<close>
  is true exactly when the whole sorted tag blocks are equal and the content digests are
  within the ten percent bound. The code splits each fingerprint at its first two bars,
  so for a prompt with two feature tags it compares the first tag as "features" and the
  second tag as "content" and never reads the digests. The prompts \<open>What is A?\<close> and
  \<open>Where is B?\<close> have the tags Q1 and SHORT and the digests \<open>what is a?\<close> and
  \<open>where is b?\<close>; the code answers true, the predicate of the specification is false.
\<close>

theorem fingerprintsSimilar_compares_tags_only:
  "fingerprintsSimilar (generateFingerprint ''What is A?'' None)
      (generateFingerprint ''Where is B?'' None) = Inr True
   \<and> extractFeatures ''What is A?'' = [''Q1'', ''SHORT'']
   \<and> extractFeatures ''Where is B?'' = [''Q1'', ''SHORT'']
   \<and> contentHash ''What is A?'' = ''what is a?''
   \<and> contentHash ''Where is B?'' = ''where is b?''
   \<and> specSimilar (extractFeatures ''What is A?'') (contentHash ''What is A?'')
        (extractFeatures ''Where is B?'') (contentHash ''Where is B?'') = False"
  by code_simp

section \<open>Properties of the session store\<close>

text \<open>
  C10. With sessions disabled (the default configuration) or with an empty session id,
  \<open>setSession\<close>, \<open>recordResult\<close> and \<open>touchSession\<close> return the store unchanged and
  \<open>getSession\<close> returns undefined and the store unchanged.
\<close>

theorem disabled_store_is_noop:
  assumes "sessionConfig st = DEFAULT_SESSION_CONFIG \<or> \<not> enabled (sessionConfig st) \<or> sid = []"
  shows "setSession st sid mdl t ctx now = st
       \<and> recordResult health st sid res now = st
       \<and> touchSession st sid now = st
       \<and> getSession st sid now = (None, st)"
proof -
  have "\<not> enabled (sessionConfig st) \<or> sid = []"
    using assms by (auto simp: DEFAULT_SESSION_CONFIG_def)
  then show ?thesis
    by (auto simp: setSession_def recordResult_def touchSession_def getSession_def)
qed

theorem disabled_store_is_noop_witness:
  "setSession (newSessionStore DEFAULT_SESSION_CONFIG) ''session-1'' ''gpt-4'' COMPLEX None 5
     = newSessionStore DEFAULT_SESSION_CONFIG
   \<and> recordResult allHealthy (newSessionStore DEFAULT_SESSION_CONFIG) ''session-1'' timeoutFailure 5
     = newSessionStore DEFAULT_SESSION_CONFIG
   \<and> getSession (newSessionStore DEFAULT_SESSION_CONFIG) ''session-1'' 7
     = (None, newSessionStore DEFAULT_SESSION_CONFIG)
   \<and> sessions pinnedStore ''session-1'' \<noteq> None
   \<and> setSession pinnedStore [] ''gpt-4'' COMPLEX None 9 = pinnedStore
   \<and> recordResult allHealthy pinnedStore [] timeoutFailure 9 = pinnedStore
   \<and> getSession pinnedStore [] 9 = (None, pinnedStore)"
proof -
  have a: "sessionConfig (newSessionStore DEFAULT_SESSION_CONFIG) = DEFAULT_SESSION_CONFIG"
    by (simp add: newSessionStore_def)
  have b: "sessions pinnedStore ''session-1'' \<noteq> None"
    by (simp add: pinnedStore_def setSession_def newSessionStore_def enabledSessionConfig_def
          DEFAULT_SESSION_CONFIG_def)
  show ?thesis
    using disabled_store_is_noop [of "newSessionStore DEFAULT_SESSION_CONFIG" "''session-1''"
            "''gpt-4''" COMPLEX None 5 allHealthy timeoutFailure]
          disabled_store_is_noop [of "newSessionStore DEFAULT_SESSION_CONFIG" "''session-1''"
            "''gpt-4''" COMPLEX None 7 allHealthy timeoutFailure]
          disabled_store_is_noop [of pinnedStore "[]" "''gpt-4''" COMPLEX None 9 allHealthy
            timeoutFailure]
          a b
    by simp
qed

lemma getBestModel_none: "getBestModel health t (getTierModels t') = None"
  by (simp add: getBestModel_def getTierModels_def sortBy_def)

lemma degradeSession_id: "degradeSession health st sid why now = st"
  by (simp add: degradeSession_def getBestModel_none split: option.splits)

text \<open>
  C4. The claim: after \<open>degradationThreshold\<close> consecutive failed \<open>recordResult\<close> calls
  the session is degraded and records the original model. In the code \<open>degradeSession\<close>
  asks \<open>getBestModel\<close> for the best of \<open>getTierModels(tier)\<close>, which is the empty array,
  so no stable model is found and the session is left as it is: no call of
  \<open>recordResult\<close> turns a session that is not degraded into a degraded one, whatever
  the health tracker answers.
\<close>

theorem recordResult_never_degrades:
  assumes "\<not> isDegradedSession st sid"
  shows "\<not> isDegradedSession (recordResult health st sid res now) sid"
  using assms
  by (auto simp: recordResult_def degradeSession_id isDegradedSession_def Let_def
        restoreOriginalModel_def split: option.splits)

text \<open>The session test of the repository: sessions enabled, threshold 2, a session pinned
  to gpt-4, two failures. The failure counter reaches 2 and the session is not degraded.\<close>

theorem recordResult_never_degrades_witness:
  "\<not> isDegradedSession pinnedStore ''session-1''
   \<and> degradationThreshold (sessionConfig pinnedStore) = 2
   \<and> map_option (\<lambda>e. consecutiveFailures (metrics e))
        (sessions (recordResult allHealthy (recordResult allHealthy pinnedStore ''session-1''
                     timeoutFailure 1) ''session-1'' timeoutFailure 2) ''session-1'') = Some 2
   \<and> \<not> isDegradedSession
        (recordResult allHealthy (recordResult allHealthy pinnedStore ''session-1''
           timeoutFailure 1) ''session-1'' timeoutFailure 2) ''session-1''"
proof -
  have a: "\<not> isDegradedSession pinnedStore ''session-1''"
    by (simp add: pinnedStore_def setSession_def newSessionStore_def enabledSessionConfig_def
          DEFAULT_SESSION_CONFIG_def isDegradedSession_def)
  have b: "degradationThreshold (sessionConfig pinnedStore) = 2"
    by (simp add: pinnedStore_def setSession_def newSessionStore_def enabledSessionConfig_def
          DEFAULT_SESSION_CONFIG_def)
  have c: "map_option (\<lambda>e. consecutiveFailures (metrics e))
        (sessions (recordResult allHealthy (recordResult allHealthy pinnedStore ''session-1''
                     timeoutFailure 1) ''session-1'' timeoutFailure 2) ''session-1'') = Some 2"
    by (simp add: pinnedStore_def setSession_def newSessionStore_def enabledSessionConfig_def
          DEFAULT_SESSION_CONFIG_def recordResult_def degradeSession_id timeoutFailure_def
          Let_def)
  from a have d: "\<not> isDegradedSession
        (recordResult allHealthy pinnedStore ''session-1'' timeoutFailure 1) ''session-1''"
    by (rule recordResult_never_degrades)
  from d have "\<not> isDegradedSession
        (recordResult allHealthy (recordResult allHealthy pinnedStore ''session-1''
           timeoutFailure 1) ''session-1'' timeoutFailure 2) ''session-1''"
    by (rule recordResult_never_degrades)
  with a b c show ?thesis by simp
qed

section \<open>Properties of the score cache\<close>

subsection \<open>Size bound and eviction\<close>






































subsection \<open>Jitter locks\<close>







































lemma jitter_get_confidence_eval: "map_option (\<lambda>e. confidence (result e))
          (fst (get_cached (runOps DEFAULT_CACHE_CONFIG jitterOps) ''prompt'' None 3)) = Some (7/10)" by code_simp




section \<open>Properties of the rule classifier\<close>

text \<open>
  C9. Without a fingerprint argument (\<open>undefined\<close>, or the empty string, which fails the
  same truth test) \<open>classifyByRules\<close> returns the score history it was given, and its
  result is the same for every score history and every random number: two such calls
  with the same prompt, system prompt, token estimate and configuration return the same
  result.
\<close>

theorem classify_without_fingerprint:
  "snd (classifyByRules p s n cfg None h rnd) = h
   \<and> fst (classifyByRules p s n cfg None h rnd) = fst (classifyByRules p s n cfg None h' rnd')
   \<and> snd (classifyByRules p s n cfg (Some []) h rnd) = h
   \<and> fst (classifyByRules p s n cfg (Some []) h rnd) = fst (classifyByRules p s n cfg None h' rnd')"
  by (simp add: classifyByRules_def Let_def truthy_def)


lemma override_result:
  assumes "2 \<le> length (keywordMatches (toLowerCase prompt) (reasoningKeywords cfg))"
  shows "tier (fst (classifyByRules prompt s n cfg fp h rnd)) = Some REASONING
       \<and> confidence (fst (classifyByRules prompt s n cfg fp h rnd))
           = max (calibrateConfidence
                    (max (weightedScoreOf (dimensionWeights cfg) (dimensions prompt s n cfg)) (3 / 10))
                    (confidenceSteepness cfg)) (85 / 100)
       \<and> 85 / 100 \<le> confidence (fst (classifyByRules prompt s n cfg fp h rnd))"
  using assms by (simp add: classifyByRules_def Let_def)






























section \<open>Properties of the route orchestrator\<close>

lemma estimateTokens_ceiling:
  "estimateTokens prompt sys
     = nat \<lceil>real (length (case sys of None \<Rightarrow> [] | Some t \<Rightarrow> t) + 1 + length prompt) / 4\<rceil>"
proof -
  have "nat \<lceil>real m / 4\<rceil> = (m + 3) div 4" for m :: nat
  proof -
    have "\<lceil>real m / 4\<rceil> = \<lceil>(of_int (int m) :: real) / of_int 4\<rceil>" by simp
    also have "\<dots> = - ((- int m) div 4)" by (simp only: ceiling_divide_eq_div)
    finally show ?thesis by (simp add: nat_eq_iff) linarith
  qed
  from this[of "length (case sys of None \<Rightarrow> [] | Some t \<Rightarrow> t) + 1 + length prompt"]
  show ?thesis
    by (simp add: estimateTokens_def fullText_def add.commute add.left_commute)
qed

lemma route_large:
  assumes "maxTokensForceComplex (overrides (routingConfig options)) < real (estimateTokens prompt sys)"
  shows "decisionTier (fst (route prompt sys mo options st now rnd)) = COMPLEX
       \<and> decisionConfidence (fst (route prompt sys mo options st now rnd)) = 95 / 100"
  using assms by (simp add: route_def Let_def split_def selectModel_def)

text \<open>
  C6. If the token estimate \<open>ceil ((length systemPrompt + 1 + length prompt) / 4)\<close> exceeds
  \<open>overrides.maxTokensForceComplex\<close>, the decision of \<open>route\<close> has tier COMPLEX and
  confidence 0.95, for every state of the cache and of the score history and every
  configuration of the other overrides.
\<close>

theorem large_context_forces_complex:
  assumes "maxTokensForceComplex (overrides (routingConfig options)) < real (estimateTokens prompt sys)"
  shows "estimateTokens prompt sys
           = nat \<lceil>real (length (case sys of None \<Rightarrow> [] | Some t \<Rightarrow> t) + 1 + length prompt) / 4\<rceil>
       \<and> decisionTier (fst (route prompt sys mo options st now rnd)) = COMPLEX
       \<and> decisionConfidence (fst (route prompt sys mo options st now rnd)) = 95 / 100"
  using route_large[OF assms] estimateTokens_ceiling by simp

theorem large_context_forces_complex_witness:
  "estimateTokens longPrompt None = 120000
   \<and> maxTokensForceComplex (overrides (routingConfig exampleOptions))
       < real (estimateTokens longPrompt None)
   \<and> decisionTier (fst (route longPrompt None 4096 exampleOptions farState 5 (1 / 2))) = COMPLEX
   \<and> decisionConfidence (fst (route longPrompt None 4096 exampleOptions farState 5 (1 / 2))) = 95 / 100"
proof -
  have t: "estimateTokens longPrompt None = 120000"
    by (simp add: estimateTokens_def fullText_def longPrompt_def)
  have l: "maxTokensForceComplex (overrides (routingConfig exampleOptions))
       < real (estimateTokens longPrompt None)"
    by (simp add: t exampleOptions_def)
  from large_context_forces_complex[OF l, of 4096 farState 5 "1 / 2"] t l
  show ?thesis by simp
qed

lemma route_cached:
  assumes en: "enableCache options \<noteq> Some False"
    and got: "get_cached (getScoreCache st) prompt sys now = (Some cd, c1)"
    and small: "\<not> maxTokensForceComplex (overrides (routingConfig options))
                    < real (estimateTokens prompt sys)"
  shows "(\<forall>ct. tier (result cd) = Some ct \<longrightarrow>
            decisionTier (fst (route prompt sys mo options st now rnd))
              = raiseForStructuredOutput (routingConfig options) sys ct
          \<and> decisionConfidence (fst (route prompt sys mo options st now rnd))
              = (if enableAdaptive options \<noteq> Some False
                    \<and> shouldUseCachedTier c1 cd
                         (score (fst (classifyByRules prompt sys (estimateTokens prompt sys)
                                   (scoring (routingConfig options))
                                   (Some (generateFingerprint prompt sys))
                                   (scoreHistoryState st) rnd))
                          * (sum_list (adaptiveWeights st) / real (length (adaptiveWeights st))))
                         (tier (fst (classifyByRules prompt sys (estimateTokens prompt sys)
                                   (scoring (routingConfig options))
                                   (Some (generateFingerprint prompt sys))
                                   (scoreHistoryState st) rnd)))
                 then max (confidence (result cd)) (7 / 10)
                 else confidence (fst (classifyByRules prompt sys (estimateTokens prompt sys)
                                   (scoring (routingConfig options))
                                   (Some (generateFingerprint prompt sys))
                                   (scoreHistoryState st) rnd))))
       \<and> (tier (result cd) = None \<longrightarrow>
            (\<forall>rt. tier (fst (classifyByRules prompt sys (estimateTokens prompt sys)
                                   (scoring (routingConfig options))
                                   (Some (generateFingerprint prompt sys))
                                   (scoreHistoryState st) rnd)) = Some rt \<longrightarrow>
               decisionTier (fst (route prompt sys mo options st now rnd))
                 = raiseForStructuredOutput (routingConfig options) sys rt
             \<and> decisionConfidence (fst (route prompt sys mo options st now rnd))
                 = confidence (fst (classifyByRules prompt sys (estimateTokens prompt sys)
                                   (scoring (routingConfig options))
                                   (Some (generateFingerprint prompt sys))
                                   (scoreHistoryState st) rnd)))
          \<and> (tier (fst (classifyByRules prompt sys (estimateTokens prompt sys)
                                   (scoring (routingConfig options))
                                   (Some (generateFingerprint prompt sys))
                                   (scoreHistoryState st) rnd)) = None \<longrightarrow>
               decisionTier (fst (route prompt sys mo options st now rnd))
                 = raiseForStructuredOutput (routingConfig options) sys
                     (ambiguousDefaultTier (overrides (routingConfig options)))
             \<and> decisionConfidence (fst (route prompt sys mo options st now rnd)) = 1 / 2))"
proof -
  have uc: "(case enableCache options of None \<Rightarrow> True | Some b \<Rightarrow> b) = True"
    using en by (cases "enableCache options") auto
  have ua: "(case enableAdaptive options of None \<Rightarrow> True | Some b \<Rightarrow> b)
              = (enableAdaptive options \<noteq> Some False)"
    by (cases "enableAdaptive options") auto
  show ?thesis
    using got small
    by (auto simp: route_def Let_def split_def selectModel_def uc ua
          raiseForStructuredOutput_def shouldUseCachedTier_def)
qed

lemma route_cached_tier:
  assumes "enableCache options \<noteq> Some False"
    and "get_cached (getScoreCache st) prompt sys now = (Some cd, c1)"
    and "\<not> maxTokensForceComplex (overrides (routingConfig options))
             < real (estimateTokens prompt sys)"
  shows "(\<forall>ct. tier (result cd) = Some ct \<longrightarrow>
            decisionTier (fst (route prompt sys mo options st now rnd))
              = raiseForStructuredOutput (routingConfig options) sys ct
          \<and> decisionConfidence (fst (route prompt sys mo options st now rnd))
              = (if enableAdaptive options \<noteq> Some False
                    \<and> shouldUseCachedTier c1 cd
                         (score (freshResult prompt sys options st rnd) * weightFactor st)
                         (tier (freshResult prompt sys options st rnd))
                 then max (confidence (result cd)) (7 / 10)
                 else confidence (freshResult prompt sys options st rnd)))
       \<and> (tier (result cd) = None \<longrightarrow>
            (\<forall>rt. tier (freshResult prompt sys options st rnd) = Some rt \<longrightarrow>
               decisionTier (fst (route prompt sys mo options st now rnd))
                 = raiseForStructuredOutput (routingConfig options) sys rt
             \<and> decisionConfidence (fst (route prompt sys mo options st now rnd))
                 = confidence (freshResult prompt sys options st rnd))
          \<and> (tier (freshResult prompt sys options st rnd) = None \<longrightarrow>
               decisionTier (fst (route prompt sys mo options st now rnd))
                 = raiseForStructuredOutput (routingConfig options) sys
                     (ambiguousDefaultTier (overrides (routingConfig options)))
             \<and> decisionConfidence (fst (route prompt sys mo options st now rnd)) = 1 / 2))"
  unfolding freshResult_def weightFactor_def using assms by (rule route_cached)

text \<open>
  C1 (as amended). The cache is enabled, \<open>get\<close> returns an entry and the large-context
  override does not apply. If the entry has a tier, the decision carries that tier
  (raised to \<open>structuredOutputMinTier\<close> when the structured-output override applies),
  whether or not \<open>shouldUseCachedTier\<close> holds; its confidence is
  \<open>max cached.confidence 0.7\<close> when adaptive weights are enabled and \<open>shouldUseCachedTier\<close>
  holds, and the classifier's confidence otherwise. If the entry has no tier, the
  decision carries the freshly classified tier with the classifier's confidence, or the
  ambiguous default with confidence 0.5 when the classifier returned no tier.
\<close>

theorem route_keeps_cached_tier:
  assumes "enableCache options \<noteq> Some False"
    and "get_cached (getScoreCache st) prompt sys now = (Some cd, c1)"
    and "\<not> maxTokensForceComplex (overrides (routingConfig options))
             < real (estimateTokens prompt sys)"
  shows "(\<forall>ct. tier (result cd) = Some ct \<longrightarrow>
            decisionTier (fst (route prompt sys mo options st now rnd))
              = raiseForStructuredOutput (routingConfig options) sys ct
          \<and> decisionConfidence (fst (route prompt sys mo options st now rnd))
              = (if enableAdaptive options \<noteq> Some False
                    \<and> shouldUseCachedTier c1 cd
                         (score (freshResult prompt sys options st rnd) * weightFactor st)
                         (tier (freshResult prompt sys options st rnd))
                 then max (confidence (result cd)) (7 / 10)
                 else confidence (freshResult prompt sys options st rnd)))
       \<and> (tier (result cd) = None \<longrightarrow>
            (\<forall>rt. tier (freshResult prompt sys options st rnd) = Some rt \<longrightarrow>
               decisionTier (fst (route prompt sys mo options st now rnd))
                 = raiseForStructuredOutput (routingConfig options) sys rt
             \<and> decisionConfidence (fst (route prompt sys mo options st now rnd))
                 = confidence (freshResult prompt sys options st rnd))
          \<and> (tier (freshResult prompt sys options st rnd) = None \<longrightarrow>
               decisionTier (fst (route prompt sys mo options st now rnd))
                 = raiseForStructuredOutput (routingConfig options) sys
                     (ambiguousDefaultTier (overrides (routingConfig options)))
             \<and> decisionConfidence (fst (route prompt sys mo options st now rnd)) = 1 / 2))"
  using assms by (rule route_cached_tier)

lemma matches_prove_theorem: "keywordMatches (toLowerCase ''Prove the theorem'') (reasoningKeywords exampleScoring) = [''prove'', ''theorem'']" by code_simp

lemma near_entry: "map_option (\<lambda>c. (tier (result c), distanceToBoundary c, confidence (result c)))
            (fst (get_cached (getScoreCache nearState) ''Prove the theorem'' None 5))
          = Some (Some SIMPLE, 1 / 100, 6 / 10)" by code_simp

lemma near_width: "fuzzyBoundaryWidth (config (snd (get_cached (getScoreCache nearState) ''Prove the theorem'' None 5))) = 5 / 100" by code_simp

lemma tokens_prove_theorem: "estimateTokens ''Prove the theorem'' None = 5" by code_simp

lemma fresh_prove_theorem:
  "tier (freshResult ''Prove the theorem'' None exampleOptions st rnd) = Some REASONING"
proof -
  have "2 \<le> length (keywordMatches (toLowerCase ''Prove the theorem'')
                 (reasoningKeywords (scoring (routingConfig exampleOptions))))"
    using matches_prove_theorem by (simp add: exampleOptions_def)
  from override_result[OF this] show ?thesis by (simp add: freshResult_def)
qed

lemma small_prove_theorem:
  "\<not> maxTokensForceComplex (overrides (routingConfig exampleOptions))
       < real (estimateTokens ''Prove the theorem'' None)"
  by (simp add: tokens_prove_theorem exampleOptions_def)

theorem route_keeps_cached_tier_witness:
  "enableCache exampleOptions \<noteq> Some False
   \<and> fst (get_cached (getScoreCache nearState) ''Prove the theorem'' None 5) \<noteq> None
   \<and> \<not> maxTokensForceComplex (overrides (routingConfig exampleOptions))
          < real (estimateTokens ''Prove the theorem'' None)
   \<and> tier (result (the (fst (get_cached (getScoreCache nearState) ''Prove the theorem'' None 5))))
       = Some SIMPLE
   \<and> tier (freshResult ''Prove the theorem'' None exampleOptions nearState (1 / 2)) = Some REASONING
   \<and> shouldUseCachedTier (snd (get_cached (getScoreCache nearState) ''Prove the theorem'' None 5))
        (the (fst (get_cached (getScoreCache nearState) ''Prove the theorem'' None 5)))
        (score (freshResult ''Prove the theorem'' None exampleOptions nearState (1 / 2))
           * weightFactor nearState)
        (tier (freshResult ''Prove the theorem'' None exampleOptions nearState (1 / 2)))
   \<and> decisionTier (fst (route ''Prove the theorem'' None 4096 exampleOptions nearState 5 (1 / 2)))
       = SIMPLE
   \<and> decisionConfidence (fst (route ''Prove the theorem'' None 4096 exampleOptions nearState 5 (1 / 2)))
       = 7 / 10"
proof -
  let ?g = "get_cached (getScoreCache nearState) ''Prove the theorem'' None 5"
  obtain cd where cd: "fst ?g = Some cd" "tier (result cd) = Some SIMPLE"
    "distanceToBoundary cd = 1 / 100" "confidence (result cd) = 6 / 10"
    using near_entry by auto
  then have g: "?g = (Some cd, snd ?g)" by (metis prod.collapse)
  have en: "enableCache exampleOptions \<noteq> Some False" by (simp add: exampleOptions_def)
  have ad: "enableAdaptive exampleOptions \<noteq> Some False" by (simp add: exampleOptions_def)
  have yes: "shouldUseCachedTier (snd ?g) cd
        (score (freshResult ''Prove the theorem'' None exampleOptions nearState (1 / 2))
           * weightFactor nearState)
        (tier (freshResult ''Prove the theorem'' None exampleOptions nearState (1 / 2)))"
    using cd near_width by (simp add: shouldUseCachedTier_def fresh_prove_theorem)
  from route_keeps_cached_tier[OF en g small_prove_theorem, of 4096 "1 / 2"] cd(2)
  have "decisionTier (fst (route ''Prove the theorem'' None 4096 exampleOptions nearState 5 (1 / 2)))
          = raiseForStructuredOutput (routingConfig exampleOptions) None SIMPLE"
    and "decisionConfidence (fst (route ''Prove the theorem'' None 4096 exampleOptions nearState 5 (1 / 2)))
          = (if enableAdaptive exampleOptions \<noteq> Some False
                \<and> shouldUseCachedTier (snd ?g) cd
                     (score (freshResult ''Prove the theorem'' None exampleOptions nearState (1 / 2))
                        * weightFactor nearState)
                     (tier (freshResult ''Prove the theorem'' None exampleOptions nearState (1 / 2)))
             then max (confidence (result cd)) (7 / 10)
             else confidence (freshResult ''Prove the theorem'' None exampleOptions nearState (1 / 2)))"
    by simp_all
  then have "decisionTier (fst (route ''Prove the theorem'' None 4096 exampleOptions nearState 5 (1 / 2)))
          = SIMPLE"
    and "decisionConfidence (fst (route ''Prove the theorem'' None 4096 exampleOptions nearState 5 (1 / 2)))
          = 7 / 10"
    using ad yes cd(4) by (simp_all add: raiseForStructuredOutput_def truthy_def)
  with en cd small_prove_theorem fresh_prove_theorem yes show ?thesis by simp
qed

text \<open>The claim as stated has the cached tier kept only when \<open>shouldUseCachedTier\<close>
  holds. Here the cached entry has tier SIMPLE at distance 1 from the nearest boundary,
  the classifier returns REASONING, \<open>shouldUseCachedTier\<close> is false, and the decision
  still carries SIMPLE.\<close>

lemma far_entry: "map_option (\<lambda>c. (tier (result c), distanceToBoundary c, confidence (result c)))
            (fst (get_cached (getScoreCache farState) ''Prove the theorem'' None 5))
          = Some (Some SIMPLE, 1, 9 / 10)" by code_simp

lemma far_width: "fuzzyBoundaryWidth (config (snd (get_cached (getScoreCache farState)
                     ''Prove the theorem'' None 5))) = 5 / 100"
  by code_simp

theorem route_keeps_cached_tier_counterexample:
  "fst (get_cached (getScoreCache farState) ''Prove the theorem'' None 5) \<noteq> None
   \<and> tier (result (the (fst (get_cached (getScoreCache farState) ''Prove the theorem'' None 5))))
       = Some SIMPLE
   \<and> tier (freshResult ''Prove the theorem'' None exampleOptions farState (1 / 2)) = Some REASONING
   \<and> shouldUseCachedTier (snd (get_cached (getScoreCache farState) ''Prove the theorem'' None 5))
        (the (fst (get_cached (getScoreCache farState) ''Prove the theorem'' None 5)))
        (score (freshResult ''Prove the theorem'' None exampleOptions farState (1 / 2))
           * weightFactor farState)
        (tier (freshResult ''Prove the theorem'' None exampleOptions farState (1 / 2))) = False
   \<and> decisionTier (fst (route ''Prove the theorem'' None 4096 exampleOptions farState 5 (1 / 2)))
       = SIMPLE"
proof -
  let ?g = "get_cached (getScoreCache farState) ''Prove the theorem'' None 5"
  obtain cd where cd: "fst ?g = Some cd" "tier (result cd) = Some SIMPLE"
    "distanceToBoundary cd = 1"
    using far_entry by auto
  then have g: "?g = (Some cd, snd ?g)" by (metis prod.collapse)
  have en: "enableCache exampleOptions \<noteq> Some False" by (simp add: exampleOptions_def)
  have no: "shouldUseCachedTier (snd ?g) cd
        (score (freshResult ''Prove the theorem'' None exampleOptions farState (1 / 2))
           * weightFactor farState)
        (tier (freshResult ''Prove the theorem'' None exampleOptions farState (1 / 2))) = False"
    using cd far_width by (simp add: shouldUseCachedTier_def fresh_prove_theorem)
  have "decisionTier (fst (route ''Prove the theorem'' None 4096 exampleOptions farState 5 (1 / 2)))
          = raiseForStructuredOutput (routingConfig exampleOptions) None SIMPLE"
    using route_cached_tier[OF en g small_prove_theorem, of 4096 "1 / 2"] cd(2) by simp
  then have "decisionTier (fst (route ''Prove the theorem'' None 4096 exampleOptions farState 5 (1 / 2)))
          = SIMPLE"
    by (simp add: raiseForStructuredOutput_def truthy_def)
  with cd no fresh_prove_theorem show ?thesis by simp
qed

end
